theory Spec2Isabelle
  imports Complex_Main "HOL-Library.Sublist"
begin

section \<open>Python values, dictionaries, exceptions\<close>

text \<open>
  A Python float is a real number, one of the two infinities, or not-a-number. A finite
  float is read as the real number it denotes: rounding and overflow are not modelled.
  Every comparison with \<open>NaN\<close> is false.
\<close>

datatype pyfloat = Float real | PosInf | NegInf | NaN

fun float_lt :: "pyfloat \<Rightarrow> pyfloat \<Rightarrow> bool" where
  "float_lt NaN b = False"
| "float_lt a NaN = False"
| "float_lt PosInf b = False"
| "float_lt a PosInf = True"
| "float_lt a NegInf = False"
| "float_lt NegInf b = True"
| "float_lt (Float x) (Float y) = (x < y)"

fun float_add :: "pyfloat \<Rightarrow> pyfloat \<Rightarrow> pyfloat" where
  "float_add NaN b = NaN"
| "float_add a NaN = NaN"
| "float_add PosInf NegInf = NaN"
| "float_add NegInf PosInf = NaN"
| "float_add PosInf b = PosInf"
| "float_add a PosInf = PosInf"
| "float_add NegInf b = NegInf"
| "float_add a NegInf = NegInf"
| "float_add (Float x) (Float y) = Float (x + y)"

text \<open>Division of a float by a positive count.\<close>

fun float_div :: "pyfloat \<Rightarrow> nat \<Rightarrow> pyfloat" where
  "float_div (Float x) n = Float (x / real n)"
| "float_div a n = a"

text \<open>
  The values the application stores and sends are the JSON-shaped Python values:
  \<open>None\<close>, booleans, integers, floats, strings, lists and dictionaries with string keys.
\<close>

datatype pyval =
    PNone
  | PBool bool
  | PInt int
  | PFloat pyfloat
  | PStr string
  | PList "pyval list"
  | PDict "(string \<times> pyval) list"

text \<open>
  A Python \<open>dict\<close> keeps its keys in insertion order, and several functions of the
  application iterate over one. It is an association list; assigning to a key that is
  present replaces the value where it stands, a new key goes to the end.
\<close>

type_synonym ('k, 'v) dict = "('k \<times> 'v) list"

definition dict_get :: "('k, 'v) dict \<Rightarrow> 'k \<Rightarrow> 'v option" where
  "dict_get d k = map_of d k"

definition dict_keys :: "('k, 'v) dict \<Rightarrow> 'k list" where
  "dict_keys d = map fst d"

definition dict_values :: "('k, 'v) dict \<Rightarrow> 'v list" where
  "dict_values d = map snd d"

definition dict_contains :: "('k, 'v) dict \<Rightarrow> 'k \<Rightarrow> bool" where
  "dict_contains d k = (k \<in> set (dict_keys d))"

fun dict_set :: "'k \<Rightarrow> 'v \<Rightarrow> ('k, 'v) dict \<Rightarrow> ('k, 'v) dict" where
  "dict_set k v [] = [(k, v)]"
| "dict_set k v (p # d) = (if fst p = k then (k, v) # d else p # dict_set k v d)"

definition dict_update :: "('k, 'v) dict \<Rightarrow> ('k, 'v) dict \<Rightarrow> ('k, 'v) dict" where
  "dict_update d other = fold (\<lambda>p acc. dict_set (fst p) (snd p) acc) other d"

datatype error =
    KeyError string
  | ValueError string
  | IndexError string
  | AttributeError string
  | TypeError string
  | APIIntegrationError string
  | RequestException string
  | FileNotFoundError string
  | JSONDecodeError string

text \<open>Slices \<open>xs[:n]\<close>, \<open>xs[a:b]\<close> and \<open>xs[a:]\<close>; a negative bound counts from the end.\<close>

definition slice_index :: "'a list \<Rightarrow> int \<Rightarrow> nat" where
  "slice_index xs i = (if i < 0 then nat (int (length xs) + i) else min (nat i) (length xs))"

definition slice_to :: "'a list \<Rightarrow> int \<Rightarrow> 'a list" where
  "slice_to xs n = take (slice_index xs n) xs"

definition slice_from :: "'a list \<Rightarrow> int \<Rightarrow> 'a list" where
  "slice_from xs a = drop (slice_index xs a) xs"

definition slice :: "'a list \<Rightarrow> int \<Rightarrow> int \<Rightarrow> 'a list" where
  "slice xs a b = take (slice_index xs b - slice_index xs a) (drop (slice_index xs a) xs)"

subsection \<open>Strings\<close>

definition quote :: string where
  "quote = [CHR 0x27]"

definition newline :: char where
  "newline = CHR 0x0A"

fun string_of_nat :: "nat \<Rightarrow> string" where
  "string_of_nat n =
     (if n < 10 then [''0123456789'' ! n]
      else string_of_nat (n div 10) @ [''0123456789'' ! (n mod 10)])"

declare string_of_nat.simps [simp del]

text \<open>\<open>sep.join(parts)\<close>.\<close>

fun join :: "string \<Rightarrow> string list \<Rightarrow> string" where
  "join sep [] = []"
| "join sep [p] = p"
| "join sep (p # q # ps) = p @ sep @ join sep (q # ps)"

text \<open>\<open>s.split('\n')\<close>: the pieces between the newlines, empty pieces kept.\<close>

fun split_lines :: "string \<Rightarrow> string list" where
  "split_lines [] = [[]]"
| "split_lines (c # cs) =
     (if c = newline then [] # split_lines cs
      else (case split_lines cs of
              [] \<Rightarrow> [[c]]
            | l # ls \<Rightarrow> (c # l) # ls))"

text \<open>\<open>s.lower()\<close> and \<open>s.upper()\<close> on the ASCII letters.\<close>

definition lower_char :: "char \<Rightarrow> char" where
  "lower_char c =
     (case map_of (zip ''ABCDEFGHIJKLMNOPQRSTUVWXYZ'' ''abcdefghijklmnopqrstuvwxyz'') c of
        Some l \<Rightarrow> l
      | None \<Rightarrow> c)"

definition upper_char :: "char \<Rightarrow> char" where
  "upper_char c =
     (case map_of (zip ''abcdefghijklmnopqrstuvwxyz'' ''ABCDEFGHIJKLMNOPQRSTUVWXYZ'') c of
        Some u \<Rightarrow> u
      | None \<Rightarrow> c)"

definition lower :: "string \<Rightarrow> string" where
  "lower s = map lower_char s"

definition startswith :: "string \<Rightarrow> string \<Rightarrow> bool" where
  "startswith s p = prefix p s"

definition endswith :: "string \<Rightarrow> string \<Rightarrow> bool" where
  "endswith s p = suffix p s"

text \<open>\<open>sub in s\<close> on strings: \<open>sub\<close> occurs in \<open>s\<close> as a contiguous piece.\<close>

fun contains :: "string \<Rightarrow> string \<Rightarrow> bool" where
  "contains [] sub = (sub = [])"
| "contains (c # cs) sub = (prefix sub (c # cs) \<or> contains cs sub)"

text \<open>
  \<open>s.replace(old, new)\<close> for a non-empty \<open>old\<close>, as every call of the source has it:
  the occurrences are replaced from the left, without overlap. The counter is the
  number of characters of a replaced occurrence still to skip.
\<close>

fun replace_from :: "string \<Rightarrow> string \<Rightarrow> nat \<Rightarrow> string \<Rightarrow> string" where
  "replace_from old new k [] = []"
| "replace_from old new (Suc k) (c # cs) = replace_from old new k cs"
| "replace_from old new 0 (c # cs) =
     (if prefix old (c # cs) then new @ replace_from old new (length old - 1) cs
      else c # replace_from old new 0 cs)"

definition replace :: "string \<Rightarrow> string \<Rightarrow> string \<Rightarrow> string" where
  "replace s old new = replace_from old new 0 s"

text \<open>
  \<open>str(e)\<close> of an exception. The text of a \<open>KeyError\<close> is the \<open>repr\<close> of its
  argument: a string in quotes, a number as it is; \<open>KeyError\<close> carries that text.
\<close>

definition repr_str :: "string \<Rightarrow> string" where
  "repr_str s = quote @ s @ quote"

fun str_error :: "error \<Rightarrow> string" where
  "str_error (KeyError k) = k"
| "str_error (ValueError m) = m"
| "str_error (IndexError m) = m"
| "str_error (AttributeError m) = m"
| "str_error (TypeError m) = m"
| "str_error (APIIntegrationError m) = m"
| "str_error (RequestException m) = m"
| "str_error (FileNotFoundError m) = m"
| "str_error (JSONDecodeError m) = m"

section \<open>The stored records of main.py\<close>

text \<open>
  A combination, a result and a synthesized idea are dictionaries with fixed keys in the
  source; they are records here. The metadata of a result or an idea is a dictionary
  whose keys differ from case to case, and stays one.
\<close>

record combination =
  comb_id :: string
  comb_model :: string
  comb_template :: string
  comb_query :: string
  comb_domain :: string

record result =
  res_combination_id :: string
  res_prompt :: string
  res_response :: string
  res_metadata :: "(string, pyval) dict"

record idea =
  idea_id :: string
  idea_title :: string
  idea_description :: string
  idea_source_combinations :: "string list"
  idea_text :: string
  idea_metadata :: "(string, pyval) dict"

section \<open>The world outside the program\<close>

text \<open>
  The random source, \<open>uuid4\<close>, the clock, the environment variables and the network are
  inputs of the program. The first three are tapes of the values still to come, read
  from the head; an exhausted tape yields a fixed value. Two functions of the Python
  runtime are inputs as well: \<open>str\<close> on a value that is not a string, and what
  \<open>list.sort\<close> leaves of a list in which some key is \<open>NaN\<close> (the comparisons are then
  not an order, and the outcome depends on the internals of the sorting algorithm).
\<close>

record request =
  req_url :: string
  req_headers :: "(string, string) dict"
  req_json :: pyval

text \<open>
  An HTTP response: the status, what \<open>response.json()\<close> gives (the parsed body, or the
  message of the \<open>ValueError\<close> it raises) and the body as text. \<open>requests.post\<close>
  returns a response or raises a \<open>RequestException\<close> with a message.
\<close>

record response =
  status_code :: int
  resp_json :: "string + pyval"
  resp_text :: string

record world =
  random_tape :: "nat list"
  uuid_tape :: "string list"
  clock_tape :: "real list"
  environ :: "(string, string) dict"
  requests_post :: "request \<Rightarrow> string + response"
  str_of :: "pyval \<Rightarrow> string"
  sort_with_nan :: "(result \<times> pyfloat) list \<Rightarrow> (result \<times> pyfloat) list"

definition next_random :: "world \<Rightarrow> nat \<times> world" where
  "next_random w =
     (case random_tape w of
        [] \<Rightarrow> (0, w)
      | r # rs \<Rightarrow> (r, w\<lparr> random_tape := rs \<rparr>))"

definition uuid4 :: "world \<Rightarrow> string \<times> world" where
  "uuid4 w =
     (case uuid_tape w of
        [] \<Rightarrow> (''00000000-0000-4000-8000-000000000000'', w)
      | u # us \<Rightarrow> (u, w\<lparr> uuid_tape := us \<rparr>))"

definition time_time :: "world \<Rightarrow> real \<times> world" where
  "time_time w =
     (case clock_tape w of
        [] \<Rightarrow> (0, w)
      | t # ts \<Rightarrow> (t, w\<lparr> clock_tape := ts \<rparr>))"

text \<open>\<open>random.choice(seq)\<close>; an empty sequence raises \<open>IndexError\<close>.\<close>

definition random_choice :: "'a list \<Rightarrow> world \<Rightarrow> (error + 'a) \<times> world" where
  "random_choice xs w =
     (if xs = [] then (Inl (IndexError ''Cannot choose from an empty sequence''), w)
      else (Inr (xs ! (fst (next_random w) mod length xs)), snd (next_random w)))"

text \<open>
  \<open>random.sample(population, k)\<close>: \<open>k\<close> elements at different positions, in the order
  drawn; \<open>ValueError\<close> when \<open>k\<close> is negative or larger than the population.
\<close>

fun sample_loop :: "nat \<Rightarrow> 'a list \<Rightarrow> world \<Rightarrow> 'a list \<times> world" where
  "sample_loop 0 pop w = ([], w)"
| "sample_loop (Suc k) pop w =
     (if pop = [] then ([], w)
      else
        let i = fst (next_random w) mod length pop;
            rest = sample_loop k (take i pop @ drop (Suc i) pop) (snd (next_random w))
        in (pop ! i # fst rest, snd rest))"

definition random_sample :: "'a list \<Rightarrow> int \<Rightarrow> world \<Rightarrow> (error + 'a list) \<times> world" where
  "random_sample pop k w =
     (if k < 0 \<or> int (length pop) < k
      then (Inl (ValueError ''Sample larger than population or is negative''), w)
      else (Inr (fst (sample_loop (nat k) pop w)), snd (sample_loop (nat k) pop w)))"

section \<open>instruction_templates.py\<close>

record instruction_template =
  tmpl_id :: string
  tmpl_name :: string
  tmpl_template :: string
  tmpl_metadata :: "(string, string) dict"

text \<open>
  \<open>self.template.format(**variables)\<close>. The text is read from the left, in one of four
  states: in plain text; after an opening brace; inside the replacement field whose
  name has been read so far; after a closing brace in plain text. A doubled brace is a
  literal brace. A field \<open>{name}\<close> is replaced by the variable of that name, and a name
  that is not among the variables raises \<open>KeyError\<close>; a field with no name or with a
  number for a name asks for a positional argument, of which there are none
  (\<open>IndexError\<close>); a brace without its partner raises \<open>ValueError\<close>. Fields with an
  attribute, an index, a conversion or a format specification are not modelled (no
  template of the repository has one), and the values of the variables are strings.
\<close>

datatype format_state = Plain | Opened | Field string | Closed

definition is_digit :: "char \<Rightarrow> bool" where
  "is_digit c = (c \<in> set ''0123456789'')"

definition get_field :: "(string, string) dict \<Rightarrow> string \<Rightarrow> error + string" where
  "get_field vars field =
     (if list_all is_digit field
      then Inl (IndexError ''Replacement index out of range for positional args tuple'')
      else (case dict_get vars field of
              None \<Rightarrow> Inl (KeyError (repr_str field))
            | Some v \<Rightarrow> Inr v))"

fun str_format :: "(string, string) dict \<Rightarrow> format_state \<Rightarrow> string \<Rightarrow> error + string" where
  "str_format vars Plain [] = Inr []"
| "str_format vars Opened [] = Inl (ValueError ''Single { encountered in format string'')"
| "str_format vars (Field field) [] = Inl (ValueError ''expected } before end of string'')"
| "str_format vars Closed [] = Inl (ValueError ''Single } encountered in format string'')"
| "str_format vars Plain (c # cs) =
     (if c = CHR ''{'' then str_format vars Opened cs
      else if c = CHR ''}'' then str_format vars Closed cs
      else (case str_format vars Plain cs of
              Inl e \<Rightarrow> Inl e
            | Inr s \<Rightarrow> Inr (c # s)))"
| "str_format vars Opened (c # cs) =
     (if c = CHR ''{'' then
        (case str_format vars Plain cs of
           Inl e \<Rightarrow> Inl e
         | Inr s \<Rightarrow> Inr (c # s))
      else if c = CHR ''}'' then
        (case get_field vars [] of
           Inl e \<Rightarrow> Inl e
         | Inr v \<Rightarrow>
             (case str_format vars Plain cs of
                Inl e \<Rightarrow> Inl e
              | Inr s \<Rightarrow> Inr (v @ s)))
      else str_format vars (Field [c]) cs)"
| "str_format vars (Field field) (c # cs) =
     (if c = CHR ''}'' then
        (case get_field vars field of
           Inl e \<Rightarrow> Inl e
         | Inr v \<Rightarrow>
             (case str_format vars Plain cs of
                Inl e \<Rightarrow> Inl e
              | Inr s \<Rightarrow> Inr (v @ s)))
      else if c = CHR ''{'' then Inl (ValueError ''unexpected { in field name'')
      else str_format vars (Field (field @ [c])) cs)"
| "str_format vars Closed (c # cs) =
     (if c = CHR ''}'' then
        (case str_format vars Plain cs of
           Inl e \<Rightarrow> Inl e
         | Inr s \<Rightarrow> Inr (c # s))
      else Inl (ValueError ''Single } encountered in format string''))"

text \<open>
  \<open>InstructionTemplate.format\<close>: the \<open>KeyError\<close> of a missing variable is turned into
  a \<open>ValueError\<close> that names it; any other exception passes.
\<close>

definition strip_quotes :: "string \<Rightarrow> string" where
  "strip_quotes s = rev (dropWhile (\<lambda>c. c = CHR 0x27) (rev (dropWhile (\<lambda>c. c = CHR 0x27) s)))"

definition format :: "instruction_template \<Rightarrow> (string, string) dict \<Rightarrow> error + string" where
  "format t variables =
     (case str_format variables Plain (tmpl_template t) of
        Inl (KeyError k) \<Rightarrow>
          Inl (ValueError (''Missing required variable '' @ quote @ strip_quotes k @ quote
                             @ '' for template '' @ quote @ tmpl_name t @ quote))
      | Inl e \<Rightarrow> Inl e
      | Inr s \<Rightarrow> Inr s)"

type_synonym template_library = "(string, instruction_template) dict"

definition get_template :: "template_library \<Rightarrow> string \<Rightarrow> error + instruction_template" where
  "get_template templates template_id =
     (case dict_get templates template_id of
        None \<Rightarrow> Inl (KeyError (repr_str (''No template with ID '' @ quote @ template_id @ quote @ '' exists'')))
      | Some t \<Rightarrow> Inr t)"

definition list_templates :: "template_library \<Rightarrow> instruction_template list" where
  "list_templates templates = dict_values templates"

section \<open>domain_manager.py\<close>

record domain =
  dom_id :: string
  dom_name :: string
  dom_description :: string
  dom_keywords :: "string list"

type_synonym domain_manager = "(string, domain) dict"

definition get_domain :: "domain_manager \<Rightarrow> string \<Rightarrow> error + domain" where
  "get_domain domains domain_id =
     (case dict_get domains domain_id of
        None \<Rightarrow> Inl (KeyError (repr_str (''No domain with ID '' @ quote @ domain_id @ quote @ '' exists'')))
      | Some d \<Rightarrow> Inr d)"

definition list_domains :: "domain_manager \<Rightarrow> domain list" where
  "list_domains domains = dict_values domains"

section \<open>query_generator.py\<close>

record query =
  query_id :: string
  query_text :: string
  query_variables :: "(string, string) dict"

record query_generator =
  base_queries :: "(string, query) dict"
  variations :: "(string, query list) dict"

definition add_base_query :: "query_generator \<Rightarrow> query \<Rightarrow> query_generator" where
  "add_base_query qg q =
     (let qg1 = qg\<lparr> base_queries := dict_set (query_id q) q (base_queries qg) \<rparr>
      in if \<not> dict_contains (variations qg1) (query_id q)
         then qg1\<lparr> variations := dict_set (query_id q) [] (variations qg1) \<rparr>
         else qg1)"

subsection \<open>The six variation strategies\<close>

definition constraints :: "string list" where
  "constraints =
     [ ''with limited resources'',
       ''within a tight budget'',
       ''in a short timeframe'',
       ''with minimal technological infrastructure'',
       ''without requiring specialized expertise'',
       ''while ensuring accessibility for all users'',
       ''while minimizing environmental impact'',
       ''while adhering to strict regulatory requirements'',
       ''in a way that can be incrementally implemented'',
       ''without disrupting existing systems'' ]"

definition add_constraints :: "query \<Rightarrow> world \<Rightarrow> (error + query) \<times> world" where
  "add_constraints base_query w =
     (case random_choice constraints w of
        (Inl e, w1) \<Rightarrow> (Inl e, w1)
      | (Inr constraint, w1) \<Rightarrow>
          (Inr \<lparr> query_id = query_id base_query @ ''_constraint_'' @ slice_to (fst (uuid4 w1)) 8,
                 query_text = query_text base_query @ '', '' @ constraint @ ''?'',
                 query_variables = dict_set ''constraint'' constraint (query_variables base_query) \<rparr>,
           snd (uuid4 w1)))"

definition perspectives :: "string list" where
  "perspectives =
     [ ''from the perspective of end users'',
       ''from a sustainability standpoint'',
       ''from a business efficiency perspective'',
       ''for developing countries'',
       ''for rural communities'',
       ''for elderly populations'',
       ''for people with disabilities'',
       ''for young professionals'',
       ''for educational institutions'',
       ''for government agencies'' ]"

definition change_perspective :: "query \<Rightarrow> world \<Rightarrow> (error + query) \<times> world" where
  "change_perspective base_query w =
     (case random_choice perspectives w of
        (Inl e, w1) \<Rightarrow> (Inl e, w1)
      | (Inr perspective, w1) \<Rightarrow>
          (Inr \<lparr> query_id = query_id base_query @ ''_perspective_'' @ slice_to (fst (uuid4 w1)) 8,
                 query_text = query_text base_query @ '', considering it '' @ perspective @ ''?'',
                 query_variables = dict_set ''perspective'' perspective (query_variables base_query) \<rparr>,
           snd (uuid4 w1)))"

definition contexts :: "string list" where
  "contexts =
     [ ''in the context of rapid urbanization'',
       ''given the rise of remote work'',
       ''in the era of climate change'',
       ''with increasing automation'',
       ''in light of changing demographics'',
       ''amidst economic uncertainty'',
       ''in response to public health challenges'',
       ''with the rise of data-driven decision making'',
       ''in societies with aging populations'',
       ''in regions with rapid technological adoption'' ]"

definition add_context :: "query \<Rightarrow> world \<Rightarrow> (error + query) \<times> world" where
  "add_context base_query w =
     (case random_choice contexts w of
        (Inl e, w1) \<Rightarrow> (Inl e, w1)
      | (Inr ctx, w1) \<Rightarrow>
          (Inr \<lparr> query_id = query_id base_query @ ''_context_'' @ slice_to (fst (uuid4 w1)) 8,
                 query_text = query_text base_query @ '', '' @ ctx @ ''?'',
                 query_variables = dict_set ''context'' ctx (query_variables base_query) \<rparr>,
           snd (uuid4 w1)))"

definition rephrase_question :: "query \<Rightarrow> world \<Rightarrow> (error + query) \<times> world" where
  "rephrase_question base_query w =
     (let text = lower (query_text base_query);
          rephrased0 =
            (if startswith text ''how might we'' then
               replace text ''how might we'' ''what are effective ways to''
             else if startswith text ''what are'' then
               replace text ''what are'' ''how might we identify''
             else if startswith text ''how can'' then
               replace text ''how can'' ''what strategies would allow us to''
             else if startswith text ''what strategies'' then
               replace text ''what strategies'' ''how might we develop approaches to''
             else ''What innovative approaches could address the challenge of '' @ text @ ''?'');
          rephrased1 = (if \<not> endswith rephrased0 ''?'' then rephrased0 @ ''?'' else rephrased0)
      in case rephrased1 of
           [] \<Rightarrow> (Inl (IndexError ''string index out of range''), w)
         | c # cs \<Rightarrow>
             (Inr \<lparr> query_id = query_id base_query @ ''_rephrased_'' @ slice_to (fst (uuid4 w)) 8,
                    query_text = upper_char c # cs,
                    query_variables = query_variables base_query \<rparr>,
              snd (uuid4 w)))"

definition aspects :: "string list" where
  "aspects =
     [ ''the technological aspects of'',
       ''the social implications of'',
       ''the economic viability of'',
       ''the implementation challenges in'',
       ''the user adoption factors for'',
       ''the long-term sustainability of'',
       ''the scalability considerations for'',
       ''the ethical dimensions of'',
       ''the educational requirements for'',
       ''the policy implications of'' ]"

definition focus_on_specific_aspect :: "query \<Rightarrow> world \<Rightarrow> (error + query) \<times> world" where
  "focus_on_specific_aspect base_query w =
     (case random_choice aspects w of
        (Inl e, w1) \<Rightarrow> (Inl e, w1)
      | (Inr aspect, w1) \<Rightarrow>
          (let text0 = query_text base_query;
               text = (if endswith text0 ''?'' then slice_to text0 (- 1) else text0)
           in (Inr \<lparr> query_id = query_id base_query @ ''_aspect_'' @ slice_to (fst (uuid4 w1)) 8,
                      query_text = ''How might we address '' @ aspect @ '' '' @ text @ ''?'',
                      query_variables = dict_set ''focused_aspect'' aspect (query_variables base_query) \<rparr>,
               snd (uuid4 w1))))"

definition approaches :: "string list" where
  "approaches =
     [ ''Instead of conventional solutions, how might we'',
       ''What if we considered a bottom-up approach to'',
       ''How could emerging technologies enable us to'',
       ''What would a nature-inspired solution look like for'',
       ''How might we leverage collective intelligence to'',
       ''What cross-industry insights could be applied to'',
       ''How could behavioral science principles help us'',
       ''What would a minimalist approach look like for'',
       ''How might we use gamification to address'',
       ''What if we focused on prevention rather than solution for'' ]"

definition adopt_alternative_approach :: "query \<Rightarrow> world \<Rightarrow> (error + query) \<times> world" where
  "adopt_alternative_approach base_query w =
     (case random_choice approaches w of
        (Inl e, w1) \<Rightarrow> (Inl e, w1)
      | (Inr approach, w1) \<Rightarrow>
          (let text = lower (query_text base_query);
               core0 =
                 (if startswith text ''how might we '' then slice_from text 13
                  else if startswith text ''how can '' then slice_from text 8
                  else if startswith text ''what are '' then slice_from text 9
                  else text);
               core = (if endswith core0 ''?'' then slice_to core0 (- 1) else core0)
           in (Inr \<lparr> query_id = query_id base_query @ ''_approach_'' @ slice_to (fst (uuid4 w1)) 8,
                      query_text = approach @ '' '' @ core @ ''?'',
                      query_variables = dict_set ''alternative_approach'' approach (query_variables base_query) \<rparr>,
               snd (uuid4 w1))))"

definition strategies :: "(query \<Rightarrow> world \<Rightarrow> (error + query) \<times> world) list" where
  "strategies =
     [ add_constraints,
       change_perspective,
       add_context,
       rephrase_question,
       focus_on_specific_aspect,
       adopt_alternative_approach ]"

subsection \<open>_create_variations and generate_variations\<close>

text \<open>
  The \<open>while\<close> loop of \<open>_create_variations\<close>. \<open>attempts\<close> grows by one in every round
  and stops the loop at \<open>max_attempts\<close>; the third argument is the number of rounds
  left, \<open>max_attempts - attempts\<close>.
\<close>

fun create_variations_loop ::
  "query \<Rightarrow> int \<Rightarrow> nat \<Rightarrow> query list \<Rightarrow> string set \<Rightarrow> world \<Rightarrow> (error + query list) \<times> world"
where
  "create_variations_loop base_query count 0 vs used_texts w = (Inr vs, w)"
| "create_variations_loop base_query count (Suc left) vs used_texts w =
     (if int (length vs) < count then
        (case random_choice strategies w of
           (Inl e, w1) \<Rightarrow> (Inl e, w1)
         | (Inr strategy, w1) \<Rightarrow>
             (case strategy base_query w1 of
                (Inl e, w2) \<Rightarrow> (Inl e, w2)
              | (Inr variation, w2) \<Rightarrow>
                  (if query_text variation \<notin> used_texts
                   then create_variations_loop base_query count left (vs @ [variation])
                          (insert (query_text variation) used_texts) w2
                   else create_variations_loop base_query count left vs used_texts w2)))
      else (Inr vs, w))"

definition create_variations :: "query \<Rightarrow> int \<Rightarrow> world \<Rightarrow> (error + query list) \<times> world" where
  "create_variations base_query count w =
     create_variations_loop base_query count (nat (count * 3)) [] {} w"

definition generate_variations ::
  "query_generator \<Rightarrow> string \<Rightarrow> int \<Rightarrow> world \<Rightarrow> (error + query list) \<times> query_generator \<times> world"
where
  "generate_variations qg qid count w =
     (case dict_get (base_queries qg) qid of
        None \<Rightarrow> (Inl (KeyError (repr_str (''No base query with ID '' @ quote @ qid @ quote))), qg, w)
      | Some base_query \<Rightarrow>
          (case create_variations base_query count w of
             (Inl e, w1) \<Rightarrow> (Inl e, qg, w1)
           | (Inr vs, w1) \<Rightarrow>
               (case dict_get (variations qg) qid of
                  None \<Rightarrow> (Inl (KeyError (repr_str qid)), qg, w1)
                | Some old \<Rightarrow>
                    (Inr vs, qg\<lparr> variations := dict_set qid (old @ vs) (variations qg) \<rparr>, w1))))"

definition get_query_by_id :: "query_generator \<Rightarrow> string \<Rightarrow> query option" where
  "get_query_by_id qg qid =
     (case dict_get (base_queries qg) qid of
        Some q \<Rightarrow> Some q
      | None \<Rightarrow> List.find (\<lambda>q. query_id q = qid) (concat (dict_values (variations qg))))"

section \<open>model_api_integration.py\<close>

type_synonym params = "(string, pyval) dict"

text \<open>
  A dictionary handed to a method is a reference: the caller sees what the method writes
  into it. The dictionaries that \<open>generate\<close> may touch live in a heap, a list of cells
  addressed by position; a new dictionary is a new cell at the end.
\<close>

type_synonym heap = "params list"

datatype client =
    AnthropicClient string string
  | OpenAIClient string "string option"

text \<open>\<open>a or b\<close> on optional strings: \<open>None\<close> and the empty string are false.\<close>

definition or_str :: "string option \<Rightarrow> string option \<Rightarrow> string option" where
  "or_str a b = (case a of Some s \<Rightarrow> (if s \<noteq> [] then Some s else b) | None \<Rightarrow> b)"

definition anthropic_init :: "string option \<Rightarrow> string \<Rightarrow> world \<Rightarrow> error + client" where
  "anthropic_init api_key api_version w =
     (case or_str api_key (dict_get (environ w) ''ANTHROPIC_API_KEY'') of
        Some k \<Rightarrow>
          (if k \<noteq> [] then Inr (AnthropicClient k api_version)
           else Inl (APIIntegrationError ''Anthropic API key not provided and not found in environment''))
      | None \<Rightarrow> Inl (APIIntegrationError ''Anthropic API key not provided and not found in environment''))"

definition openai_init :: "string option \<Rightarrow> string option \<Rightarrow> world \<Rightarrow> error + client" where
  "openai_init api_key organization w =
     (case or_str api_key (dict_get (environ w) ''OPENAI_API_KEY'') of
        Some k \<Rightarrow>
          (if k \<noteq> [] then
             Inr (OpenAIClient k (or_str organization (dict_get (environ w) ''OPENAI_ORGANIZATION'')))
           else Inl (APIIntegrationError ''OpenAI API key not provided and not found in environment''))
      | None \<Rightarrow> Inl (APIIntegrationError ''OpenAI API key not provided and not found in environment''))"

text \<open>
  \<open>_handle_error\<close> always raises; the model returns the exception. A body that does not
  parse gives the status and the first hundred characters; \<open>.get\<close> on a value that is
  not a dictionary is an \<open>AttributeError\<close>, which the \<open>except\<close> clause lets pass.
\<close>

definition string_of_int :: "int \<Rightarrow> string" where
  "string_of_int i = (if i < 0 then ''-'' @ string_of_nat (nat (- i)) else string_of_nat (nat i))"

definition message_text :: "world \<Rightarrow> pyval \<Rightarrow> string" where
  "message_text w v = (case v of PStr s \<Rightarrow> s | _ \<Rightarrow> str_of w v)"

definition handle_error :: "world \<Rightarrow> response \<Rightarrow> error" where
  "handle_error w resp =
     (case resp_json resp of
        Inl m \<Rightarrow>
          APIIntegrationError (''API error: '' @ string_of_int (status_code resp) @ '' - ''
                                 @ slice_to (resp_text resp) 100)
      | Inr (PDict error_data) \<Rightarrow>
          (case dict_get error_data ''error'' of
             None \<Rightarrow> APIIntegrationError ''Unknown API error''
           | Some (PDict err) \<Rightarrow>
               (case dict_get err ''message'' of
                  None \<Rightarrow> APIIntegrationError ''Unknown API error''
                | Some v \<Rightarrow> APIIntegrationError (message_text w v))
           | Some _ \<Rightarrow> AttributeError ''object has no attribute get'')
      | Inr _ \<Rightarrow> AttributeError ''object has no attribute get'')"

text \<open>Subscripts on a parsed body: \<open>v[key]\<close> for a string key and \<open>v[0]\<close>.\<close>

definition subscript_key :: "pyval \<Rightarrow> string \<Rightarrow> error + pyval" where
  "subscript_key v k =
     (case v of
        PDict d \<Rightarrow> (case dict_get d k of None \<Rightarrow> Inl (KeyError (repr_str k)) | Some x \<Rightarrow> Inr x)
      | _ \<Rightarrow> Inl (TypeError ''indices must be integers or object is not subscriptable''))"

definition subscript_0 :: "pyval \<Rightarrow> error + pyval" where
  "subscript_0 v =
     (case v of
        PList xs \<Rightarrow> (case xs of [] \<Rightarrow> Inl (IndexError ''list index out of range'') | x # _ \<Rightarrow> Inr x)
      | PStr s \<Rightarrow> (case s of [] \<Rightarrow> Inl (IndexError ''string index out of range'') | c # _ \<Rightarrow> Inr (PStr [c]))
      | PDict d \<Rightarrow> Inl (KeyError ''0'')
      | _ \<Rightarrow> Inl (TypeError ''object is not subscriptable''))"

text \<open>
  \<open>generate\<close> is declared to return \<open>str\<close>. Where the body holds something else at the
  place of the text, the model reports a \<open>TypeError\<close>.
\<close>

definition as_text :: "pyval \<Rightarrow> error + string" where
  "as_text v = (case v of PStr s \<Rightarrow> Inr s | _ \<Rightarrow> Inl (TypeError ''response text is not a string''))"

definition anthropic_text :: "pyval \<Rightarrow> error + string" where
  "anthropic_text response_data =
     (case subscript_key response_data ''content'' of
        Inl e \<Rightarrow> Inl e
      | Inr content \<Rightarrow>
          (case subscript_0 content of
             Inl e \<Rightarrow> Inl e
           | Inr first \<Rightarrow>
               (case subscript_key first ''text'' of
                  Inl e \<Rightarrow> Inl e
                | Inr t \<Rightarrow> as_text t)))"

definition openai_text :: "pyval \<Rightarrow> error + string" where
  "openai_text response_data =
     (case subscript_key response_data ''choices'' of
        Inl e \<Rightarrow> Inl e
      | Inr choices \<Rightarrow>
          (case subscript_0 choices of
             Inl e \<Rightarrow> Inl e
           | Inr first \<Rightarrow>
               (case subscript_key first ''message'' of
                  Inl e \<Rightarrow> Inl e
                | Inr msg \<Rightarrow>
                    (case subscript_key msg ''content'' of
                       Inl e \<Rightarrow> Inl e
                     | Inr t \<Rightarrow> as_text t))))"

text \<open>
  The \<open>try\<close> block of \<open>generate\<close>: send, check the status, parse, pick the text. A
  \<open>RequestException\<close>, and a \<open>KeyError\<close>, \<open>IndexError\<close> or \<open>ValueError\<close>, become an
  \<open>APIIntegrationError\<close>; every other exception passes as it is.
\<close>

definition send_request ::
  "string \<Rightarrow> (pyval \<Rightarrow> error + string) \<Rightarrow> request \<Rightarrow> world \<Rightarrow> error + string"
where
  "send_request api pick req w =
     (case requests_post w req of
        Inl m \<Rightarrow> Inl (APIIntegrationError (''Request to '' @ api @ '' API failed: '' @ m))
      | Inr resp \<Rightarrow>
          (if status_code resp \<noteq> 200 then Inl (handle_error w resp)
           else
             (case resp_json resp of
                Inl m \<Rightarrow> Inl (APIIntegrationError (''Failed to parse '' @ api @ '' API response: '' @ m))
              | Inr response_data \<Rightarrow>
                  (case pick response_data of
                     Inl (KeyError k) \<Rightarrow>
                       Inl (APIIntegrationError (''Failed to parse '' @ api @ '' API response: '' @ k))
                   | Inl (IndexError m) \<Rightarrow>
                       Inl (APIIntegrationError (''Failed to parse '' @ api @ '' API response: '' @ m))
                   | Inl (ValueError m) \<Rightarrow>
                       Inl (APIIntegrationError (''Failed to parse '' @ api @ '' API response: '' @ m))
                   | Inl e \<Rightarrow> Inl e
                   | Inr t \<Rightarrow> Inr t))))"

text \<open>The defaults that \<open>generate\<close> writes into \<open>params\<close>.\<close>

definition set_defaults :: "params \<Rightarrow> params" where
  "set_defaults params =
     (let p1 = (if \<not> dict_contains params ''max_tokens''
                then dict_set ''max_tokens'' (PInt 1024) params else params)
      in if \<not> dict_contains p1 ''temperature''
         then dict_set ''temperature'' (PFloat (Float 0.7)) p1 else p1)"

text \<open>\<open>for key in [...]: if key in params: payload[key] = params[key]\<close>\<close>

definition forward_keys :: "string list \<Rightarrow> params \<Rightarrow> params \<Rightarrow> params" where
  "forward_keys keys params payload =
     fold (\<lambda>key pl. case dict_get params key of Some v \<Rightarrow> dict_set key v pl | None \<Rightarrow> pl)
       keys payload"

definition get_or :: "params \<Rightarrow> string \<Rightarrow> pyval \<Rightarrow> pyval" where
  "get_or d k dflt = (case dict_get d k of Some v \<Rightarrow> v | None \<Rightarrow> dflt)"

text \<open>
  The request of each client, from the parameters with their defaults in place;
  \<open>params["max_tokens"]\<close> of a dictionary without the key would be a \<open>KeyError\<close>.
\<close>

definition client_request :: "client \<Rightarrow> string \<Rightarrow> params \<Rightarrow> error + request" where
  "client_request c prompt params =
     (case (dict_get params ''max_tokens'', dict_get params ''temperature'') of
        (None, _) \<Rightarrow> Inl (KeyError (repr_str ''max_tokens''))
      | (Some _, None) \<Rightarrow> Inl (KeyError (repr_str ''temperature''))
      | (Some max_tokens, Some temperature) \<Rightarrow>
          (case c of
             AnthropicClient api_key api_version \<Rightarrow>
               Inr \<lparr> req_url = ''https://api.anthropic.com/v1/messages'',
                     req_headers = [ (''x-api-key'', api_key),
                                     (''anthropic-version'', api_version),
                                     (''content-type'', ''application/json'') ],
                     req_json = PDict (forward_keys [''top_p'', ''top_k'', ''stop_sequences''] params
                       [ (''model'', get_or params ''model'' (PStr ''claude-3-sonnet-20240229'')),
                         (''messages'', PList [PDict [(''role'', PStr ''user''), (''content'', PStr prompt)]]),
                         (''max_tokens'', max_tokens),
                         (''temperature'', temperature) ]) \<rparr>
           | OpenAIClient api_key organization \<Rightarrow>
               Inr \<lparr> req_url = ''https://api.openai.com/v1/chat/completions'',
                     req_headers =
                       (let headers = [ (''Authorization'', ''Bearer '' @ api_key),
                                        (''Content-Type'', ''application/json'') ]
                        in case organization of
                             Some org \<Rightarrow> (if org \<noteq> [] then dict_set ''OpenAI-Organization'' org headers
                                          else headers)
                           | None \<Rightarrow> headers),
                     req_json = PDict (forward_keys
                       [''top_p'', ''presence_penalty'', ''frequency_penalty'', ''stop''] params
                       [ (''model'', get_or params ''model'' (PStr ''gpt-4-turbo'')),
                         (''messages'', PList [PDict [(''role'', PStr ''user''), (''content'', PStr prompt)]]),
                         (''max_tokens'', max_tokens),
                         (''temperature'', temperature) ]) \<rparr>))"

text \<open>
  \<open>params = parameters or {}\<close>: the caller's dictionary when there is one and it is not
  empty, a new empty dictionary otherwise. The result is the address of \<open>params\<close> and
  the heap that holds it.
\<close>

definition params_or_new :: "nat option \<Rightarrow> heap \<Rightarrow> nat \<times> heap" where
  "params_or_new parameters h =
     (case parameters of
        None \<Rightarrow> (length h, h @ [[]])
      | Some a \<Rightarrow> (if h ! a \<noteq> [] then (a, h) else (length h, h @ [[]])))"

text \<open>
  \<open>AnthropicClient.generate\<close> and \<open>OpenAIClient.generate\<close>: both begin with the same
  lines and differ in the request and in the place of the text in the answer. The
  argument \<open>parameters\<close> is \<open>None\<close> or the address of the caller's dictionary.
\<close>

definition generate ::
  "client \<Rightarrow> string \<Rightarrow> nat option \<Rightarrow> heap \<Rightarrow> world \<Rightarrow> (error + string) \<times> heap"
where
  "generate c prompt parameters h w =
     (let a = fst (params_or_new parameters h);
          h1 = snd (params_or_new parameters h);
          h2 = h1[a := set_defaults (h1 ! a)]
      in case client_request c prompt (h2 ! a) of
           Inl e \<Rightarrow> (Inl e, h2)
         | Inr req \<Rightarrow>
             (case c of
                AnthropicClient _ _ \<Rightarrow> (send_request ''Anthropic'' anthropic_text req w, h2)
              | OpenAIClient _ _ \<Rightarrow> (send_request ''OpenAI'' openai_text req w, h2)))"

definition create_client :: "string \<Rightarrow> world \<Rightarrow> error + client" where
  "create_client provider w =
     (if lower provider = ''anthropic'' then anthropic_init None ''2023-06-01'' w
      else if lower provider = ''openai'' then openai_init None None w
      else Inl (ValueError (''Unsupported provider: '' @ lower provider)))"

section \<open>The application object of main.py\<close>

record model_config =
  cfg_name :: "string option"
  cfg_provider :: "string option"
  cfg_parameters :: "params option"

text \<open>
  \<open>ISEEApplication\<close>. The scoring framework is left out: evaluation_scoring.py is not
  among the sources, and the functions below read the evaluations that are stored.
\<close>

record isee_application =
  template_library :: template_library
  query_generator :: query_generator
  domain_manager :: domain_manager
  combinations :: "combination list"
  results :: "(string, result) dict"
  evaluations :: "(string, (string, pyfloat) dict) dict"
  synthesized_ideas :: "(string, idea) dict"
  model_configs :: "(string, model_config) dict"
  model_clients :: "(string, client) dict"

section \<open>Persistence: save_state and load_state\<close>

text \<open>
  \<open>save_state\<close> and \<open>load_state\<close> do not look into the four stores: each is written and
  read back as the JSON value it is. \<open>json.dump\<close> and \<open>json.load\<close> belong to the
  standard library; a file written by \<open>json.dump\<close> is modelled by the JSON value it
  holds, any other file by its text. The functions below give the JSON value of each
  store of the application.
\<close>

record saved_state =
  st_combinations :: pyval
  st_results :: pyval
  st_evaluations :: pyval
  st_synthesized_ideas :: pyval

definition combination_value :: "combination \<Rightarrow> pyval" where
  "combination_value c =
     PDict [ (''id'', PStr (comb_id c)),
             (''model'', PStr (comb_model c)),
             (''template'', PStr (comb_template c)),
             (''query'', PStr (comb_query c)),
             (''domain'', PStr (comb_domain c)) ]"

definition result_value :: "result \<Rightarrow> pyval" where
  "result_value r =
     PDict [ (''combination_id'', PStr (res_combination_id r)),
             (''prompt'', PStr (res_prompt r)),
             (''response'', PStr (res_response r)),
             (''metadata'', PDict (res_metadata r)) ]"

definition idea_value :: "idea \<Rightarrow> pyval" where
  "idea_value i =
     PDict [ (''id'', PStr (idea_id i)),
             (''title'', PStr (idea_title i)),
             (''description'', PStr (idea_description i)),
             (''source_combinations'', PList (map PStr (idea_source_combinations i))),
             (''text'', PStr (idea_text i)),
             (''metadata'', PDict (idea_metadata i)) ]"

definition stored_state :: "isee_application \<Rightarrow> saved_state" where
  "stored_state app =
     \<lparr> st_combinations = PList (map combination_value (combinations app)),
       st_results = PDict (map (\<lambda>p. (fst p, result_value (snd p))) (results app)),
       st_evaluations =
         PDict (map (\<lambda>p. (fst p, PDict (map (\<lambda>q. (fst q, PFloat (snd q))) (snd p))))
                  (evaluations app)),
       st_synthesized_ideas = PDict (map (\<lambda>p. (fst p, idea_value (snd p))) (synthesized_ideas app)) \<rparr>"

type_synonym filesystem = "(string, string + pyval) dict"

definition save_state :: "saved_state \<Rightarrow> string \<Rightarrow> filesystem \<Rightarrow> filesystem" where
  "save_state st state_path fs =
     dict_set state_path
       (Inr (PDict [ (''combinations'', st_combinations st),
                     (''results'', st_results st),
                     (''evaluations'', st_evaluations st),
                     (''synthesized_ideas'', st_synthesized_ideas st) ]))
       fs"

definition load_state :: "string \<Rightarrow> filesystem \<Rightarrow> error + saved_state" where
  "load_state state_path fs =
     (case dict_get fs state_path of
        None \<Rightarrow> Inl (FileNotFoundError state_path)
      | Some (Inl txt) \<Rightarrow> Inl (JSONDecodeError ''Expecting value'')
      | Some (Inr (PDict state)) \<Rightarrow>
          Inr \<lparr> st_combinations = get_or state ''combinations'' (PList []),
                st_results = get_or state ''results'' (PDict []),
                st_evaluations = get_or state ''evaluations'' (PDict []),
                st_synthesized_ideas = get_or state ''synthesized_ideas'' (PDict []) \<rparr>
      | Some (Inr _) \<Rightarrow> Inl (AttributeError ''object has no attribute get''))"

section \<open>Combination generator: generate_combinations\<close>

fun get_domains :: "domain_manager \<Rightarrow> string list \<Rightarrow> error + domain list" where
  "get_domains dm [] = Inr []"
| "get_domains dm (did # dids) =
     (case get_domain dm did of
        Inl e \<Rightarrow> Inl e
      | Inr d \<Rightarrow> (case get_domains dm dids of Inl e \<Rightarrow> Inl e | Inr ds \<Rightarrow> Inr (d # ds)))"

definition placeholder_models :: "int \<Rightarrow> string list" where
  "placeholder_models model_count =
     map (\<lambda>i. ''model_'' @ string_of_nat i) [1 ..< nat (model_count + 1)]"

definition combination_of :: "string \<Rightarrow> instruction_template \<Rightarrow> query \<Rightarrow> domain \<Rightarrow> combination" where
  "combination_of m t q d =
     \<lparr> comb_id = m @ ''_'' @ tmpl_id t @ ''_'' @ query_id q @ ''_'' @ dom_id d,
       comb_model = m,
       comb_template = tmpl_id t,
       comb_query = query_id q,
       comb_domain = dom_id d \<rparr>"

text \<open>The four nested loops.\<close>

definition all_combinations ::
  "string list \<Rightarrow> instruction_template list \<Rightarrow> query list \<Rightarrow> domain list \<Rightarrow> combination list"
where
  "all_combinations models templates all_queries domains =
     concat (map (\<lambda>m.
       concat (map (\<lambda>t.
         concat (map (\<lambda>q.
           map (\<lambda>d. combination_of m t q d) domains) all_queries)) templates)) models)"

text \<open>
  The first part of \<open>generate_combinations\<close> chooses the queries, domains, models and
  templates, in this order; it may raise, and it leaves the new variations in the query
  generator.
\<close>

definition select_components ::
  "isee_application \<Rightarrow> string \<Rightarrow> string list option \<Rightarrow> int \<Rightarrow> int \<Rightarrow> int \<Rightarrow> world \<Rightarrow>
   (error + string list \<times> instruction_template list \<times> query list \<times> domain list)
     \<times> isee_application \<times> world"
where
  "select_components app qid domain_ids model_count instruction_count query_variations w =
     (case get_query_by_id (query_generator app) qid of
        None \<Rightarrow> (Inl (KeyError (repr_str (''No query with ID '' @ quote @ qid @ quote @ '' exists''))), app, w)
      | Some base_query \<Rightarrow>
          (case generate_variations (query_generator app) qid query_variations w of
             (Inl e, qg1, w1) \<Rightarrow> (Inl e, app\<lparr> query_generator := qg1 \<rparr>, w1)
           | (Inr vs, qg1, w1) \<Rightarrow>
               (let app1 = app\<lparr> query_generator := qg1 \<rparr>;
                    all_queries = base_query # vs
                in case (case domain_ids of
                           None \<Rightarrow> Inr (list_domains (domain_manager app1))
                         | Some dids \<Rightarrow>
                             (if dids \<noteq> [] then get_domains (domain_manager app1) dids
                              else Inr (list_domains (domain_manager app1)))) of
                     Inl e \<Rightarrow> (Inl e, app1, w1)
                   | Inr domains \<Rightarrow>
                       (case (if model_configs app1 \<noteq> [] then
                                (if model_count < int (length (dict_keys (model_configs app1)))
                                 then random_sample (dict_keys (model_configs app1)) model_count w1
                                 else (Inr (dict_keys (model_configs app1)), w1))
                              else (Inr (placeholder_models model_count), w1)) of
                          (Inl e, w2) \<Rightarrow> (Inl e, app1, w2)
                        | (Inr models, w2) \<Rightarrow>
                            (case (if int (length (list_templates (template_library app1))) > instruction_count
                                   then random_sample (list_templates (template_library app1))
                                          instruction_count w2
                                   else (Inr (list_templates (template_library app1)), w2)) of
                               (Inl e, w3) \<Rightarrow> (Inl e, app1, w3)
                             | (Inr templates, w3) \<Rightarrow>
                                 (Inr (models, templates, all_queries, domains), app1, w3))))))"

definition generate_combinations ::
  "isee_application \<Rightarrow> string \<Rightarrow> string list option \<Rightarrow> int \<Rightarrow> int \<Rightarrow> int \<Rightarrow> world \<Rightarrow>
   (error + combination list) \<times> isee_application \<times> world"
where
  "generate_combinations app qid domain_ids model_count instruction_count query_variations w =
     (case select_components app qid domain_ids model_count instruction_count query_variations w of
        (Inl e, app1, w1) \<Rightarrow> (Inl e, app1, w1)
      | (Inr (models, templates, all_queries, domains), app1, w1) \<Rightarrow>
          (Inr (all_combinations models templates all_queries domains),
           app1\<lparr> combinations := all_combinations models templates all_queries domains \<rparr>,
           w1))"

section \<open>Execution engine: execute_combinations\<close>

definition get_or_create_model_client ::
  "isee_application \<Rightarrow> string \<Rightarrow> world \<Rightarrow> client option \<times> isee_application"
where
  "get_or_create_model_client app model_id w =
     (case dict_get (model_clients app) model_id of
        Some c \<Rightarrow> (Some c, app)
      | None \<Rightarrow>
          (case dict_get (model_configs app) model_id of
             None \<Rightarrow> (None, app)
           | Some cfg \<Rightarrow>
               (let model_name = (case cfg_name cfg of Some n \<Rightarrow> n | None \<Rightarrow> []);
                    provider0 = (case cfg_provider cfg of Some p \<Rightarrow> p | None \<Rightarrow> []);
                    provider =
                      (if provider0 \<noteq> [] then Some provider0
                       else if contains (lower model_name) ''claude'' then Some ''anthropic''
                       else if contains (lower model_name) ''gpt'' then Some ''openai''
                       else None)
                in case provider of
                     None \<Rightarrow> (None, app)
                   | Some p \<Rightarrow>
                       (case create_client p w of
                          Inl e \<Rightarrow> (None, app)
                        | Inr c \<Rightarrow> (Some c, app\<lparr> model_clients := dict_set model_id c (model_clients app) \<rparr>)))))"

text \<open>
  \<open>{"domain": domain.description, **query.variables}\<close>: a variable of the query named
  \<open>domain\<close> replaces the description.
\<close>

definition template_variables :: "domain \<Rightarrow> query \<Rightarrow> (string, string) dict" where
  "template_variables d q = dict_update [(''domain'', dom_description d)] (query_variables q)"

definition cognitive_style :: "instruction_template \<Rightarrow> string" where
  "cognitive_style t =
     (case dict_get (tmpl_metadata t) ''cognitive_style'' of Some s \<Rightarrow> s | None \<Rightarrow> ''default'')"

text \<open>
  Both response functions begin by rendering the prompt, outside of any \<open>try\<close>.
  \<open>get_query_by_id\<close> may have returned \<open>None\<close>, on which \<open>query.variables\<close> raises
  \<open>AttributeError\<close>.
\<close>

definition render_prompt ::
  "instruction_template \<Rightarrow> query option \<Rightarrow> domain \<Rightarrow> error + string"
where
  "render_prompt t query_obj d =
     (case query_obj of
        None \<Rightarrow> Inl (AttributeError ''NoneType object has no attribute variables'')
      | Some q \<Rightarrow>
          (case format t (template_variables d q) of
             Inl e \<Rightarrow> Inl e
           | Inr formatted_instruction \<Rightarrow>
               Inr (formatted_instruction @ [newline, newline] @ query_text q)))"

text \<open>\<open>for i in range(3)\<close>: the placeholder ideas of the simulation.\<close>

fun simulated_ideas :: "nat list \<Rightarrow> string list \<Rightarrow> world \<Rightarrow> (error + string list) \<times> world" where
  "simulated_ideas [] keywords w = (Inr [], w)"
| "simulated_ideas (i # is) keywords w =
     (if keywords \<noteq> [] then
        (case random_choice keywords w of
           (Inl e, w1) \<Rightarrow> (Inl e, w1)
         | (Inr keyword, w1) \<Rightarrow>
             (case simulated_ideas is keywords w1 of
                (Inl e, w2) \<Rightarrow> (Inl e, w2)
              | (Inr rest, w2) \<Rightarrow>
                  (Inr ((''Idea '' @ string_of_nat (i + 1) @ '': A solution involving '' @ keyword
                          @ '' that addresses the core challenge.'') # rest), w2)))
      else
        (case simulated_ideas is keywords w of
           (Inl e, w2) \<Rightarrow> (Inl e, w2)
         | (Inr rest, w2) \<Rightarrow>
             (Inr ((''Idea '' @ string_of_nat (i + 1) @ '': A novel approach to solving this problem.'')
                     # rest), w2)))"

definition simulate_model_response ::
  "combination \<Rightarrow> instruction_template \<Rightarrow> query option \<Rightarrow> domain \<Rightarrow> world \<Rightarrow> (error + result) \<times> world"
where
  "simulate_model_response combo t query_obj d w =
     (case render_prompt t query_obj d of
        Inl e \<Rightarrow> (Inl e, w)
      | Inr prompt \<Rightarrow>
          (case simulated_ideas [0, 1, 2] (dom_keywords d) w of
             (Inl e, w1) \<Rightarrow> (Inl e, w1)
           | (Inr ideas, w1) \<Rightarrow>
               (Inr \<lparr> res_combination_id = comb_id combo,
                      res_prompt = prompt,
                      res_response = join [newline, newline]
                        ([ ''This is a simulated response from '' @ comb_model combo @ '' using the ''
                             @ cognitive_style t @ '' approach.'',
                           ''Domain: '' @ dom_name d,
                           ''The query was: '' @ (case query_obj of Some q \<Rightarrow> query_text q | None \<Rightarrow> []),
                           ''Here are some ideas that address this challenge:'' ]
                         @ ideas
                         @ [ ''These ideas represent a '' @ cognitive_style t
                               @ '' approach to the problem within the '' @ dom_name d @ '' domain.'' ]),
                      res_metadata = [ (''model'', PStr (comb_model combo)),
                                       (''template_style'', PStr (cognitive_style t)),
                                       (''timestamp'', PFloat (Float (fst (time_time w1)))),
                                       (''simulated'', PBool True) ] \<rparr>,
                snd (time_time w1))))"

text \<open>
  \<open>_generate_model_response\<close>. The parameters of the model are a dictionary of its own
  (empty, or a copy of the configured one), so \<open>generate\<close> gets the address of the only
  cell of a heap made for the call. Everything raised inside the \<open>try\<close> becomes the
  text of the response.
\<close>

definition generate_model_response ::
  "isee_application \<Rightarrow> combination \<Rightarrow> instruction_template \<Rightarrow> query option \<Rightarrow> domain \<Rightarrow> world \<Rightarrow>
   (error + result) \<times> isee_application \<times> world"
where
  "generate_model_response app combo t query_obj d w =
     (case render_prompt t query_obj d of
        Inl e \<Rightarrow> (Inl e, app, w)
      | Inr prompt \<Rightarrow>
          (let model_id = comb_model combo;
               client_opt = fst (get_or_create_model_client app model_id w);
               app1 = snd (get_or_create_model_client app model_id w);
               model_params =
                 (case dict_get (model_configs app1) model_id of
                    Some cfg \<Rightarrow> (case cfg_parameters cfg of Some ps \<Rightarrow> ps | None \<Rightarrow> [])
                  | None \<Rightarrow> []);
               start_time = fst (time_time w);
               w1 = snd (time_time w);
               finish = (\<lambda>response_text w2.
                 (Inr \<lparr> res_combination_id = comb_id combo,
                        res_prompt = prompt,
                        res_response = response_text,
                        res_metadata =
                          [ (''model'', PStr model_id),
                            (''template_style'', PStr (cognitive_style t)),
                            (''timestamp'', PFloat (Float (fst (time_time (snd (time_time w2)))))),
                            (''duration'', PFloat (Float (fst (time_time w2) - start_time))) ] \<rparr>,
                  app1, snd (time_time (snd (time_time w2)))))
           in case client_opt of
                Some c \<Rightarrow>
                  (case fst (generate c prompt (Some 0) [model_params] w1) of
                     Inr response_text \<Rightarrow> finish response_text w1
                   | Inl e \<Rightarrow> finish (''Error generating response: '' @ str_error e) w1)
              | None \<Rightarrow>
                  (case simulate_model_response combo t query_obj d w1 of
                     (Inr r, w2) \<Rightarrow> (Inr r, app1, w2)
                   | (Inl e, w2) \<Rightarrow> finish (''Error generating response: '' @ str_error e) w2)))"

text \<open>
  One round of the loop of \<open>execute_combinations\<close>, up to the result: the three
  look-ups, then the real call or the simulation.
\<close>

definition execute_one ::
  "bool \<Rightarrow> combination \<Rightarrow> isee_application \<Rightarrow> world \<Rightarrow>
   (error + result) \<times> isee_application \<times> world"
where
  "execute_one use_real_models combo app w =
     (case get_template (template_library app) (comb_template combo) of
        Inl e \<Rightarrow> (Inl e, app, w)
      | Inr t \<Rightarrow>
          (case get_domain (domain_manager app) (comb_domain combo) of
             Inl e \<Rightarrow> (Inl e, app, w)
           | Inr d \<Rightarrow>
               (if use_real_models \<and> model_configs app \<noteq> [] then
                  generate_model_response app combo t
                    (get_query_by_id (query_generator app) (comb_query combo)) d w
                else
                  (fst (simulate_model_response combo t
                          (get_query_by_id (query_generator app) (comb_query combo)) d w),
                   app,
                   snd (simulate_model_response combo t
                          (get_query_by_id (query_generator app) (comb_query combo)) d w)))))"

text \<open>
  The loop. An exception ends it; what the earlier rounds stored in \<open>self.results\<close>
  stays there.
\<close>

fun execute_loop ::
  "bool \<Rightarrow> combination list \<Rightarrow> (string, result) dict \<Rightarrow> isee_application \<Rightarrow> world \<Rightarrow>
   (error + (string, result) dict) \<times> isee_application \<times> world"
where
  "execute_loop use_real_models [] rs app w = (Inr rs, app, w)"
| "execute_loop use_real_models (combo # rest) rs app w =
     (case execute_one use_real_models combo app w of
        (Inl e, app1, w1) \<Rightarrow> (Inl e, app1, w1)
      | (Inr r, app1, w1) \<Rightarrow>
          execute_loop use_real_models rest (dict_set (comb_id combo) r rs)
            (app1\<lparr> results := dict_set (comb_id combo) r (results app1) \<rparr>) w1)"

text \<open>
  \<open>combinations or self.combinations\<close>, then the cap: \<open>max_to_execute\<close> counts when it
  is neither \<open>None\<close> nor 0.
\<close>

definition combinations_to_execute ::
  "isee_application \<Rightarrow> combination list option \<Rightarrow> int option \<Rightarrow> combination list"
where
  "combinations_to_execute app combinations_arg max_to_execute =
     (let cs = (case combinations_arg of
                  Some given \<Rightarrow> (if given \<noteq> [] then given else combinations app)
                | None \<Rightarrow> combinations app)
      in case max_to_execute of
           None \<Rightarrow> cs
         | Some m \<Rightarrow> (if m \<noteq> 0 \<and> int (length cs) > m then slice_to cs m else cs))"

definition execute_combinations ::
  "isee_application \<Rightarrow> combination list option \<Rightarrow> int option \<Rightarrow> bool \<Rightarrow> bool \<Rightarrow> world \<Rightarrow>
   (error + (string, result) dict) \<times> isee_application \<times> world"
where
  "execute_combinations app combinations_arg max_to_execute dry_run use_real_models w =
     (if dry_run then (Inr [], app, w)
      else execute_loop use_real_models
             (combinations_to_execute app combinations_arg max_to_execute) [] app w)"

text \<open>
  A combination renders in an application when its template and its domain are
  registered, its query is found and the template formats with the variables of the
  domain and the query: the steps that \<open>execute_combinations\<close> takes outside of any
  \<open>try\<close>.
\<close>

definition renders :: "isee_application \<Rightarrow> combination \<Rightarrow> bool" where
  "renders app combo =
     (case get_template (template_library app) (comb_template combo) of
        Inl e \<Rightarrow> False
      | Inr t \<Rightarrow>
          (case get_domain (domain_manager app) (comb_domain combo) of
             Inl e \<Rightarrow> False
           | Inr d \<Rightarrow>
               (case render_prompt t (get_query_by_id (query_generator app) (comb_query combo)) d of
                  Inl e \<Rightarrow> False
                | Inr prompt \<Rightarrow> True)))"

section \<open>Ranking: get_top_results\<close>

text \<open>
  \<open>list.sort(key=lambda x: x[1], reverse=True)\<close>. Where no score is \<open>NaN\<close> the
  scores are ordered and the sort is a stable sort into descending order: Python keeps
  elements of equal score in their original order, also with \<open>reverse=True\<close>. An
  element goes in front of the first one whose score is not greater than its own.
  Where some score is \<open>NaN\<close> the result is what the runtime leaves.
\<close>

fun insort_desc :: "'a \<times> pyfloat \<Rightarrow> ('a \<times> pyfloat) list \<Rightarrow> ('a \<times> pyfloat) list" where
  "insort_desc x [] = [x]"
| "insort_desc x (y # ys) =
     (if \<not> float_lt (snd x) (snd y) then x # y # ys else y # insort_desc x ys)"

definition sort_desc :: "world \<Rightarrow> (result \<times> pyfloat) list \<Rightarrow> (result \<times> pyfloat) list" where
  "sort_desc w xs =
     (if NaN \<in> set (map snd xs) then sort_with_nan w xs else foldr insort_desc xs [])"

text \<open>
  The loop that pairs results with their scores, in the iteration order of
  \<open>self.evaluations\<close>.
\<close>

fun scored_results ::
  "(string, result) dict \<Rightarrow> string \<Rightarrow> (string, (string, pyfloat) dict) dict \<Rightarrow>
   (result \<times> pyfloat) list"
where
  "scored_results rs criterion [] = []"
| "scored_results rs criterion ((combo_id, evaluation) # evs) =
     (case (dict_get evaluation criterion, dict_get rs combo_id) of
        (Some score, Some r) \<Rightarrow> (r, score) # scored_results rs criterion evs
      | _ \<Rightarrow> scored_results rs criterion evs)"

definition get_top_results ::
  "world \<Rightarrow> isee_application \<Rightarrow> string \<Rightarrow> int \<Rightarrow> (result \<times> pyfloat) list"
where
  "get_top_results w app criterion n =
     (if evaluations app = [] \<or> results app = [] then []
      else slice_to (sort_desc w (scored_results (results app) criterion (evaluations app))) n)"

section \<open>Synthesis: synthesize_ideas\<close>

text \<open>
  \<open>sum(score for _, score in cluster) / len(cluster)\<close>, on a list that is not empty.
\<close>

definition average_score :: "(result \<times> pyfloat) list \<Rightarrow> pyfloat" where
  "average_score cluster =
     float_div (foldl float_add (Float 0) (map snd cluster)) (length cluster)"

text \<open>
  \<open>next((line for line in lines if len(line) > 5 and len(line) < 80), default)\<close>
\<close>

definition title_candidate :: "string list \<Rightarrow> string \<Rightarrow> string" where
  "title_candidate lines dflt =
     (case List.find (\<lambda>line. length line > 5 \<and> length line < 80) lines of
        Some line \<Rightarrow> line
      | None \<Rightarrow> dflt)"

text \<open>
  The three groups of the \<open>cluster_based\<close> method. \<open>2*len(top_results)//3\<close> is
  \<open>(2 * len) // 3\<close> in Python.
\<close>

definition clusters :: "'a list \<Rightarrow> 'a list list" where
  "clusters top_results =
     [ slice_to top_results (int (length top_results) div 3),
       slice top_results (int (length top_results) div 3) (2 * int (length top_results) div 3),
       slice_from top_results (2 * int (length top_results) div 3) ]"

text \<open>
  The idea built from cluster number \<open>i\<close>. In main.py the dictionary literal of the
  fallback branch is followed by one closing brace too many (line 636); the literal is
  read as closed where its own braces close it.
\<close>

definition cluster_idea :: "string \<Rightarrow> nat \<Rightarrow> (result \<times> pyfloat) list \<Rightarrow> idea" where
  "cluster_idea method i cluster =
     (let the_id = ''synthesized_idea_'' @ string_of_nat i;
          response_texts = map (\<lambda>p. res_response (fst p)) cluster;
          meta = [ (''method'', PStr method),
                   (''cluster_id'', PInt (int i)),
                   (''cluster_size'', PInt (int (length cluster))),
                   (''average_score'', PFloat (average_score cluster)) ];
          descr = ''This idea represents a synthesis of '' @ string_of_nat (length cluster)
                    @ '' top-ranked responses.'';
          sources = map (\<lambda>p. res_combination_id (fst p)) cluster
      in if response_texts \<noteq> [] \<and> length (hd response_texts) > 0 then
           \<lparr> idea_id = the_id,
             idea_title = slice_to (title_candidate (split_lines (hd response_texts))
                                      (''Synthesized Idea '' @ string_of_nat i)) 80,
             idea_description = descr,
             idea_source_combinations = sources,
             idea_text = hd response_texts,
             idea_metadata = meta \<rparr>
         else
           \<lparr> idea_id = the_id,
             idea_title = ''Synthesized Idea '' @ string_of_nat i,
             idea_description = descr,
             idea_source_combinations = sources,
             idea_text = ''Synthesized text would extract the common themes and innovative elements from cluster ''
                           @ string_of_nat i @ ''.'',
             idea_metadata = meta \<rparr>)"

text \<open>\<open>for i, cluster in enumerate(clusters, 1)\<close>, with \<open>continue\<close> on an empty cluster.\<close>

fun cluster_loop ::
  "string \<Rightarrow> nat \<Rightarrow> (result \<times> pyfloat) list list \<Rightarrow> (string, idea) dict \<Rightarrow> (string, idea) dict"
where
  "cluster_loop method i [] synthesized = synthesized"
| "cluster_loop method i (cluster # rest) synthesized =
     (if cluster = [] then cluster_loop method (Suc i) rest synthesized
      else cluster_loop method (Suc i) rest
             (dict_set (''synthesized_idea_'' @ string_of_nat i)
                (cluster_idea method i cluster) synthesized))"

definition crossover_idea :: "string \<Rightarrow> (result \<times> pyfloat) list \<Rightarrow> idea" where
  "crossover_idea method top_results =
     \<lparr> idea_id = ''synthesized_idea_crossover'',
       idea_title = ''Cross-Pollinated Innovation'',
       idea_description = ''This idea combines elements from '' @ string_of_nat (length top_results)
                            @ '' diverse top-ranked responses.'',
       idea_source_combinations = map (\<lambda>p. res_combination_id (fst p)) top_results,
       idea_text = ''Cross-pollinated text would extract complementary elements from different responses and combine them in novel ways.'',
       idea_metadata = [ (''method'', PStr method),
                         (''sources_count'', PInt (int (length top_results))),
                         (''average_score'', PFloat (average_score top_results)) ] \<rparr>"

text \<open>
  \<open>synthesize_ideas\<close> returns the ideas of this call and leaves the application with
  its idea store updated by them.
\<close>

definition synthesize_ideas ::
  "world \<Rightarrow> isee_application \<Rightarrow> (result \<times> pyfloat) list option \<Rightarrow> string \<Rightarrow>
   isee_application \<times> (string, idea) dict"
where
  "synthesize_ideas w app top_results_arg method =
     (let top_results = (case top_results_arg of
                           None \<Rightarrow> get_top_results w app ''overall'' 10
                         | Some tr \<Rightarrow> tr)
      in if top_results = [] then (app, [])
         else
           let synthesized =
                 (if method = ''cluster_based'' then
                    cluster_loop method 1 (clusters top_results) []
                  else if method = ''cross_pollination'' then
                    dict_set ''synthesized_idea_crossover'' (crossover_idea method top_results) []
                  else [])
           in (app\<lparr> synthesized_ideas := dict_update (synthesized_ideas app) synthesized \<rparr>,
               synthesized))"

section \<open>Example inputs\<close>

text \<open>
  A small application: one template, one base query, one domain, no model
  configuration, nothing stored yet; and a world without network and without keys, in
  which a list with a \<open>NaN\<close> key is left as it is.
\<close>

definition ex_result :: "string \<Rightarrow> string \<Rightarrow> result" where
  "ex_result cid txt =
     \<lparr> res_combination_id = cid, res_prompt = ''prompt'', res_response = txt, res_metadata = [] \<rparr>"

definition ex_template :: instruction_template where
  "ex_template =
     \<lparr> tmpl_id = ''t1'', tmpl_name = ''Expert'',
       tmpl_template = ''You are an expert in {domain}...'',
       tmpl_metadata = [(''cognitive_style'', ''analytical'')] \<rparr>"

definition ex_query :: query where
  "ex_query = \<lparr> query_id = ''q1'', query_text = ''How might we improve X?'', query_variables = [] \<rparr>"

definition ex_domain :: domain where
  "ex_domain =
     \<lparr> dom_id = ''d1'', dom_name = ''Sample'', dom_description = ''sample domain'',
       dom_keywords = [''alpha'', ''beta''] \<rparr>"

definition ex_app :: isee_application where
  "ex_app =
     \<lparr> template_library = [(''t1'', ex_template)],
       query_generator = \<lparr> base_queries = [(''q1'', ex_query)], variations = [(''q1'', [])] \<rparr>,
       domain_manager = [(''d1'', ex_domain)],
       combinations = [],
       results = [],
       evaluations = [],
       synthesized_ideas = [],
       model_configs = [],
       model_clients = [] \<rparr>"

definition ex_world :: world where
  "ex_world =
     \<lparr> random_tape = [], uuid_tape = [], clock_tape = [], environ = [],
       requests_post = (\<lambda>req. Inl ''no network''), str_of = (\<lambda>v. []),
       sort_with_nan = (\<lambda>xs. xs) \<rparr>"

text \<open>
  Three stored results with their evaluations; the first and the third have the same
  score.
\<close>

definition ex_ranked :: isee_application where
  "ex_ranked =
     ex_app\<lparr> results := [ (''a'', ex_result ''a'' ''first''),
                         (''b'', ex_result ''b'' ''second''),
                         (''c'', ex_result ''c'' ''third'') ],
             evaluations := [ (''a'', [(''overall'', Float 1)]),
                              (''b'', [(''overall'', Float 2)]),
                              (''c'', [(''overall'', Float 1)]) ] \<rparr>"

text \<open>Nine scored results, best first, and two shorter lists that overlap.\<close>

definition ex_nine :: "(result \<times> pyfloat) list" where
  "ex_nine =
     [ (ex_result ''c1'' ''r1'', Float 9), (ex_result ''c2'' ''r2'', Float 8),
       (ex_result ''c3'' ''r3'', Float 7), (ex_result ''c4'' ''r4'', Float 6),
       (ex_result ''c5'' ''r5'', Float 5), (ex_result ''c6'' ''r6'', Float 4),
       (ex_result ''c7'' ''r7'', Float 3), (ex_result ''c8'' ''r8'', Float 2),
       (ex_result ''c9'' ''r9'', Float 1) ]"

definition ex_one :: "(result \<times> pyfloat) list" where
  "ex_one = [(ex_result ''b'' ''second'', Float 2)]"

definition ex_two :: "(result \<times> pyfloat) list" where
  "ex_two = [(ex_result ''b'' ''second'', Float 2), (ex_result ''c'' ''third'', Float 1)]"

text \<open>
  Three runs of the synthesis, one after the other: over two results, over one result,
  and over the two results again.
\<close>

definition ex_after_first :: isee_application where
  "ex_after_first = fst (synthesize_ideas ex_world ex_app (Some ex_two) ''cluster_based'')"

definition ex_after_second :: isee_application where
  "ex_after_second = fst (synthesize_ideas ex_world ex_after_first (Some ex_one) ''cluster_based'')"

text \<open>
  Two combinations of the small application; a second template that needs a variable
  no query supplies, and the combination that uses it.
\<close>

definition ex_combo :: combination where
  "ex_combo = combination_of ''model_1'' ex_template ex_query ex_domain"

definition ex_combo_2 :: combination where
  "ex_combo_2 = combination_of ''model_2'' ex_template ex_query ex_domain"

definition ex_template_extra :: instruction_template where
  "ex_template_extra =
     \<lparr> tmpl_id = ''t2'', tmpl_name = ''Extra'',
       tmpl_template = ''About {domain} and {extra}'',
       tmpl_metadata = [] \<rparr>"

definition ex_app_extra :: isee_application where
  "ex_app_extra = ex_app\<lparr> template_library := [(''t1'', ex_template), (''t2'', ex_template_extra)] \<rparr>"

definition ex_combo_extra :: combination where
  "ex_combo_extra = combination_of ''model_1'' ex_template_extra ex_query ex_domain"

section \<open>Facts about dictionaries, slices and numerals\<close>

lemma map_of_dict_set: "map_of (dict_set k v d) = (map_of d)(k \<mapsto> v)"
  by (induction d) (auto simp: fun_eq_iff)

lemma dict_get_dict_set: "dict_get (dict_set k v d) k' = (if k' = k then Some v else dict_get d k')"
  by (simp add: dict_get_def map_of_dict_set)

lemma keys_dict_set:
  "map fst (dict_set k v d) = (if k \<in> set (map fst d) then map fst d else map fst d @ [k])"
  by (induction d) auto

lemma distinct_dict_set: "distinct (map fst d) \<Longrightarrow> distinct (map fst (dict_set k v d))"
  by (simp add: keys_dict_set)

lemma dict_update_Nil [simp]: "dict_update d [] = d"
  by (simp add: dict_update_def)

lemma dict_update_Cons: "dict_update d (p # new) = dict_update (dict_set (fst p) (snd p) d) new"
  by (simp add: dict_update_def)

lemma map_of_dict_update_rev:
  "map_of (dict_update d new) = map_of d ++ map_of (rev new)"
proof (induction new arbitrary: d)
  case Nil
  then show ?case by simp
next
  case (Cons p new)
  show ?case
    by (cases p) (simp add: dict_update_Cons Cons.IH map_of_dict_set fun_eq_iff map_add_def
        split: option.splits)
qed

lemma map_of_dict_update:
  "distinct (map fst other) \<Longrightarrow> map_of (dict_update d other) = map_of d ++ map_of other"
proof -
  assume d: "distinct (map fst other)"
  have "map_of (rev other) = map_of other"
    by (rule map_of_inject_set [THEN iffD2]) (use d in \<open>simp_all add: rev_map [symmetric]\<close>)
  then show ?thesis by (simp add: map_of_dict_update_rev)
qed

lemma keys_dict_update:
  "set (map fst (dict_update d other)) = set (map fst d) \<union> set (map fst other)"
proof (induction other arbitrary: d)
  case Nil
  then show ?case by simp
next
  case (Cons p other)
  show ?case
    unfolding dict_update_Cons Cons.IH by (auto simp: keys_dict_set)
qed

lemma distinct_dict_update:
  "distinct (map fst d) \<Longrightarrow> distinct (map fst (dict_update d new))"
proof (induction new arbitrary: d)
  case Nil
  then show ?case by simp
next
  case (Cons p new)
  then show ?case by (simp add: dict_update_Cons distinct_dict_set)
qed

lemma keys_dict_update_present:
  "set (map fst new) \<subseteq> set (map fst d) \<Longrightarrow> map fst (dict_update d new) = map fst d"
proof (induction new arbitrary: d)
  case Nil
  then show ?case by simp
next
  case (Cons p new)
  have k: "map fst (dict_set (fst p) (snd p) d) = map fst d"
    using Cons.prems by (simp add: keys_dict_set)
  show ?case
    using Cons.prems Cons.IH [of "dict_set (fst p) (snd p) d"] by (simp add: dict_update_Cons k)
qed

lemma map_of_rev_mem:
  "k \<in> set (map fst new) \<Longrightarrow> \<exists>v. map_of (rev new) k = Some v \<and> (k, v) \<in> set new"
proof -
  assume "k \<in> set (map fst new)"
  then have "k \<in> fst ` set (rev new)" by simp
  then obtain v where v: "map_of (rev new) k = Some v"
    by (metis map_of_eq_None_iff not_Some_eq)
  then have "(k, v) \<in> set (rev new)" by (rule map_of_SomeD)
  with v show ?thesis by auto
qed

lemma distinct_keys_filter:
  "distinct (map fst xs) \<Longrightarrow> length (filter (\<lambda>p. fst p = k) xs) \<le> Suc 0"
  by (induction xs) (auto simp: filter_empty_conv image_iff)

lemma length_slice_to: "0 \<le> n \<Longrightarrow> int (length (slice_to xs n)) \<le> n"
  by (simp add: slice_to_def slice_index_def)

lemma slice_to_prefix: "prefix (slice_to xs n) xs"
  by (simp add: slice_to_def take_is_prefix)

lemma sorted_wrt_prefix: "prefix xs ys \<Longrightarrow> sorted_wrt P ys \<Longrightarrow> sorted_wrt P xs"
  by (auto simp: prefix_def sorted_wrt_append)

lemma filter_prefix: "prefix xs ys \<Longrightarrow> prefix (filter P xs) (filter P ys)"
  by (auto simp: prefix_def)

lemma string_of_nat_1: "string_of_nat (Suc 0) = ''1''"
  by (simp add: string_of_nat.simps [of "Suc 0"])

lemma string_of_nat_2: "string_of_nat (Suc (Suc 0)) = ''2''"
  by (simp add: string_of_nat.simps [of "Suc (Suc 0)"] eval_nat_numeral)

lemma string_of_nat_3: "string_of_nat (Suc (Suc (Suc 0))) = ''3''"
  by (simp add: string_of_nat.simps [of "Suc (Suc (Suc 0))"] eval_nat_numeral)

section \<open>Ranking returns a sorted, stable, bounded selection\<close>

lemma float_lt_irrefl: "\<not> float_lt a a"
  by (cases a) auto

lemma float_lt_total: "a \<noteq> NaN \<Longrightarrow> b \<noteq> NaN \<Longrightarrow> float_lt a b \<or> a = b \<or> float_lt b a"
  by (cases a; cases b) auto

lemma float_lt_trans: "float_lt a b \<Longrightarrow> float_lt b c \<Longrightarrow> float_lt a c"
  by (cases a; cases b; cases c) auto

lemma set_insort_desc: "set (insort_desc x xs) = insert x (set xs)"
  by (induction xs) auto

lemma set_foldr_insort_desc: "set (foldr insort_desc xs []) = set xs"
  by (induction xs) (auto simp: set_insort_desc)

lemma sorted_insort_desc:
  assumes "sorted_wrt (\<lambda>a b. snd b = snd a \<or> float_lt (snd b) (snd a)) xs"
    and "snd x \<noteq> NaN" and "NaN \<notin> snd ` set xs"
  shows "sorted_wrt (\<lambda>a b. snd b = snd a \<or> float_lt (snd b) (snd a)) (insort_desc x xs)"
  using assms
proof (induction xs)
  case Nil
  then show ?case by simp
next
  case (Cons y ys)
  have ny: "snd y \<noteq> NaN" using Cons.prems(3) by force
  show ?case
  proof (cases "float_lt (snd x) (snd y)")
    case True
    have "sorted_wrt (\<lambda>a b. snd b = snd a \<or> float_lt (snd b) (snd a)) (insort_desc x ys)"
      using Cons by simp
    then show ?thesis
      using True Cons.prems(1) by (auto simp: set_insort_desc)
  next
    case False
    then have xy: "snd y = snd x \<or> float_lt (snd y) (snd x)"
      using float_lt_total [OF Cons.prems(2) ny] by auto
    have "\<forall>z \<in> set ys. snd z = snd x \<or> float_lt (snd z) (snd x)"
    proof
      fix z assume "z \<in> set ys"
      then have "snd z = snd y \<or> float_lt (snd z) (snd y)"
        using Cons.prems(1) by auto
      with xy show "snd z = snd x \<or> float_lt (snd z) (snd x)"
        using float_lt_trans by metis
    qed
    then show ?thesis
      using False xy Cons.prems(1) by auto
  qed
qed

lemma sorted_foldr_insort_desc:
  "NaN \<notin> snd ` set xs \<Longrightarrow>
   sorted_wrt (\<lambda>a b. snd b = snd a \<or> float_lt (snd b) (snd a)) (foldr insort_desc xs [])"
proof (induction xs)
  case Nil
  then show ?case by simp
next
  case (Cons x xs)
  have "sorted_wrt (\<lambda>a b. snd b = snd a \<or> float_lt (snd b) (snd a))
          (insort_desc x (foldr insort_desc xs []))"
    by (rule sorted_insort_desc) (use Cons in \<open>auto simp: set_foldr_insort_desc\<close>)
  then show ?case by simp
qed

lemma filter_insort_desc:
  "filter (\<lambda>y. snd y = k) (insort_desc x xs) =
     (if snd x = k then x # filter (\<lambda>y. snd y = k) xs else filter (\<lambda>y. snd y = k) xs)"
proof (induction xs)
  case Nil
  then show ?case by simp
next
  case (Cons y ys)
  show ?case
  proof (cases "float_lt (snd x) (snd y)")
    case False
    then show ?thesis by simp
  next
    case True
    then have "snd x \<noteq> snd y" using float_lt_irrefl by metis
    with True Cons show ?thesis by auto
  qed
qed

lemma foldr_insort_desc_stable:
  "filter (\<lambda>y. snd y = k) (foldr insort_desc xs []) = filter (\<lambda>y. snd y = k) xs"
  by (induction xs) (simp_all add: filter_insort_desc)

lemma scored_results_mem:
  "(r, s) \<in> set (scored_results rs c evs) \<Longrightarrow>
   \<exists>combo_id ev. (combo_id, ev) \<in> set evs \<and> dict_get ev c = Some s \<and> dict_get rs combo_id = Some r"
proof (induction evs)
  case Nil
  then show ?case by simp
next
  case (Cons p evs)
  obtain combo_id ev where p: "p = (combo_id, ev)" by (cases p)
  show ?case
  proof (cases "(r, s) \<in> set (scored_results rs c evs)")
    case True
    with Cons.IH show ?thesis by auto
  next
    case False
    with Cons.prems p have "dict_get ev c = Some s \<and> dict_get rs combo_id = Some r"
      by (auto split: option.splits)
    with p show ?thesis by auto
  qed
qed

lemma scored_results_ties:
  "filter (\<lambda>x. snd x = k) (scored_results rs c evs) =
     map (\<lambda>p. (the (dict_get rs (fst p)), k))
       (filter (\<lambda>p. dict_get (snd p) c = Some k \<and> dict_get rs (fst p) \<noteq> None) evs)"
proof (induction evs)
  case Nil
  then show ?case by simp
next
  case (Cons p evs)
  obtain combo_id ev where p: "p = (combo_id, ev)" by (cases p)
  show ?case
    using Cons.IH unfolding p
    by (cases "dict_get ev c"; cases "dict_get rs combo_id") auto
qed

lemma scored_results_no_nan:
  "\<forall>p \<in> set evs. dict_get (snd p) c \<noteq> Some NaN \<Longrightarrow> NaN \<notin> snd ` set (scored_results rs c evs)"
  using scored_results_mem by fastforce


text \<open>
  Claim C6, as amended. For every criterion \<open>c\<close> and every bound \<open>n\<close>:
  if \<open>n\<close> is not negative, \<open>get_top_results(c, n)\<close> returns at most \<open>n\<close> items;
  each returned pair is a stored result with the score that its evaluation gives for
  \<open>c\<close> (where a score is \<open>NaN\<close> this needs that sorting only rearranges the list);
  and where no evaluation has the score \<open>NaN\<close> for \<open>c\<close>, the returned list is in
  descending order of the score (each later score is equal or less), and the items of
  one score come in the order in which the evaluations mapping is iterated: they are a
  prefix of the entries of \<open>self.evaluations\<close>, in the order of that mapping, that have
  this score for \<open>c\<close> and a stored result. What is returned for a negative \<open>n\<close> beyond
  these facts, and the order where a score is \<open>NaN\<close>, are left open.
\<close>

theorem get_top_results_ranked:
  "(0 \<le> n \<longrightarrow> int (length (get_top_results w app c n)) \<le> n)
   \<and> ((\<forall>p \<in> set (evaluations app). dict_get (snd p) c \<noteq> Some NaN)
        \<or> (\<forall>xs. set (sort_with_nan w xs) \<subseteq> set xs) \<longrightarrow>
       (\<forall>(r, s) \<in> set (get_top_results w app c n).
          \<exists>combo_id ev. (combo_id, ev) \<in> set (evaluations app) \<and> dict_get ev c = Some s
                         \<and> dict_get (results app) combo_id = Some r))
   \<and> ((\<forall>p \<in> set (evaluations app). dict_get (snd p) c \<noteq> Some NaN) \<longrightarrow>
       sorted_wrt (\<lambda>a b. snd b = snd a \<or> float_lt (snd b) (snd a)) (get_top_results w app c n)
       \<and> (\<forall>k. prefix (filter (\<lambda>x. snd x = k) (get_top_results w app c n))
               (map (\<lambda>p. (the (dict_get (results app) (fst p)), k))
                  (filter (\<lambda>p. dict_get (snd p) c = Some k \<and> dict_get (results app) (fst p) \<noteq> None)
                     (evaluations app)))))"
proof (cases "evaluations app = [] \<or> results app = []")
  case True
  then have "get_top_results w app c n = []" by (simp add: get_top_results_def)
  then show ?thesis by simp
next
  case False
  let ?scored = "scored_results (results app) c (evaluations app)"
  let ?out = "get_top_results w app c n"
  have eq: "?out = slice_to (sort_desc w ?scored) n"
    using False by (simp add: get_top_results_def)
  have p: "prefix ?out (sort_desc w ?scored)"
    by (simp add: eq slice_to_prefix)
  have a: "0 \<le> n \<longrightarrow> int (length ?out) \<le> n"
    by (simp add: eq length_slice_to)
  have b: "(\<forall>p \<in> set (evaluations app). dict_get (snd p) c \<noteq> Some NaN)
        \<or> (\<forall>xs. set (sort_with_nan w xs) \<subseteq> set xs) \<longrightarrow>
       (\<forall>(r, s) \<in> set ?out.
          \<exists>combo_id ev. (combo_id, ev) \<in> set (evaluations app) \<and> dict_get ev c = Some s
                         \<and> dict_get (results app) combo_id = Some r)"
  proof
    assume h: "(\<forall>p \<in> set (evaluations app). dict_get (snd p) c \<noteq> Some NaN)
        \<or> (\<forall>xs. set (sort_with_nan w xs) \<subseteq> set xs)"
    have "set (sort_desc w ?scored) \<subseteq> set ?scored"
    proof (cases "NaN \<in> set (map snd ?scored)")
      case True
      with h scored_results_no_nan [of "evaluations app" c "results app"]
      have "\<forall>xs. set (sort_with_nan w xs) \<subseteq> set xs" by auto
      then show ?thesis using True by (simp add: sort_desc_def)
    next
      case False
      then show ?thesis by (simp add: sort_desc_def set_foldr_insort_desc)
    qed
    then have sub: "set ?out \<subseteq> set ?scored"
      using set_mono_prefix [OF p] by blast
    show "\<forall>(r, s) \<in> set ?out.
          \<exists>combo_id ev. (combo_id, ev) \<in> set (evaluations app) \<and> dict_get ev c = Some s
                         \<and> dict_get (results app) combo_id = Some r"
      using sub scored_results_mem by fast
  qed
  have c: "(\<forall>p \<in> set (evaluations app). dict_get (snd p) c \<noteq> Some NaN) \<longrightarrow>
       sorted_wrt (\<lambda>a b. snd b = snd a \<or> float_lt (snd b) (snd a)) ?out
       \<and> (\<forall>k. prefix (filter (\<lambda>x. snd x = k) ?out)
               (map (\<lambda>p. (the (dict_get (results app) (fst p)), k))
                  (filter (\<lambda>p. dict_get (snd p) c = Some k \<and> dict_get (results app) (fst p) \<noteq> None)
                     (evaluations app))))"
  proof
    assume "\<forall>p \<in> set (evaluations app). dict_get (snd p) c \<noteq> Some NaN"
    then have nn: "NaN \<notin> snd ` set ?scored" by (rule scored_results_no_nan)
    then have sd: "sort_desc w ?scored = foldr insort_desc ?scored []"
      by (simp add: sort_desc_def)
    have s1: "sorted_wrt (\<lambda>a b. snd b = snd a \<or> float_lt (snd b) (snd a)) ?out"
      using sorted_wrt_prefix [OF p] sorted_foldr_insort_desc [OF nn] unfolding sd by blast
    have s2: "\<forall>k. prefix (filter (\<lambda>x. snd x = k) ?out)
               (map (\<lambda>p. (the (dict_get (results app) (fst p)), k))
                  (filter (\<lambda>p. dict_get (snd p) c = Some k \<and> dict_get (results app) (fst p) \<noteq> None)
                     (evaluations app)))"
    proof
      fix k
      have "prefix (filter (\<lambda>x. snd x = k) ?out) (filter (\<lambda>x. snd x = k) ?scored)"
        using filter_prefix [OF p, of "\<lambda>x. snd x = k"]
        unfolding sd by (simp add: foldr_insort_desc_stable)
      then show "prefix (filter (\<lambda>x. snd x = k) ?out)
               (map (\<lambda>p. (the (dict_get (results app) (fst p)), k))
                  (filter (\<lambda>p. dict_get (snd p) c = Some k \<and> dict_get (results app) (fst p) \<noteq> None)
                     (evaluations app)))"
        by (simp only: scored_results_ties)
    qed
    from s1 s2 show "sorted_wrt (\<lambda>a b. snd b = snd a \<or> float_lt (snd b) (snd a)) ?out
       \<and> (\<forall>k. prefix (filter (\<lambda>x. snd x = k) ?out)
               (map (\<lambda>p. (the (dict_get (results app) (fst p)), k))
                  (filter (\<lambda>p. dict_get (snd p) c = Some k \<and> dict_get (results app) (fst p) \<noteq> None)
                     (evaluations app))))"
      by (rule conjI)
  qed
  show ?thesis by (rule conjI [OF a conjI [OF b c]])
qed


text \<open>
  The claim at \<open>n = 3\<close> on three evaluated results, two of them with the same score:
  the best comes first, the two others follow in the order of the evaluations.
\<close>

lemma ex_ranked_top:
  "get_top_results ex_world ex_ranked ''overall'' 3 =
     [ (ex_result ''b'' ''second'', Float 2), (ex_result ''a'' ''first'', Float 1),
       (ex_result ''c'' ''third'', Float 1) ]"
  by (simp add: get_top_results_def ex_ranked_def ex_app_def slice_to_def slice_index_def
      sort_desc_def dict_get_def)

theorem get_top_results_ranked_witness:
  "(0::int) \<le> 3
   \<and> get_top_results ex_world ex_ranked ''overall'' 3 =
        [ (ex_result ''b'' ''second'', Float 2), (ex_result ''a'' ''first'', Float 1),
          (ex_result ''c'' ''third'', Float 1) ]
   \<and> int (length (get_top_results ex_world ex_ranked ''overall'' 3)) \<le> 3
   \<and> sorted_wrt (\<lambda>a b. snd b = snd a \<or> float_lt (snd b) (snd a))
        (get_top_results ex_world ex_ranked ''overall'' 3)
   \<and> prefix (filter (\<lambda>x. snd x = Float 1) (get_top_results ex_world ex_ranked ''overall'' 3))
        (map (\<lambda>p. (the (dict_get (results ex_ranked) (fst p)), Float 1))
           (filter (\<lambda>p. dict_get (snd p) ''overall'' = Some (Float 1)
                        \<and> dict_get (results ex_ranked) (fst p) \<noteq> None)
              (evaluations ex_ranked)))
   \<and> filter (\<lambda>x. snd x = Float 1) (get_top_results ex_world ex_ranked ''overall'' 3)
        = [(ex_result ''a'' ''first'', Float 1), (ex_result ''c'' ''third'', Float 1)]"
proof -
  have nn: "\<forall>p \<in> set (evaluations ex_ranked). dict_get (snd p) ''overall'' \<noteq> Some NaN"
    by (simp add: ex_ranked_def dict_get_def)
  note t = get_top_results_ranked [of 3 ex_world ex_ranked "''overall''"]
  from t have a: "int (length (get_top_results ex_world ex_ranked ''overall'' 3)) \<le> 3"
    by simp
  from t nn have b: "sorted_wrt (\<lambda>a b. snd b = snd a \<or> float_lt (snd b) (snd a))
        (get_top_results ex_world ex_ranked ''overall'' 3)
     \<and> (\<forall>k. prefix (filter (\<lambda>x. snd x = k) (get_top_results ex_world ex_ranked ''overall'' 3))
               (map (\<lambda>p. (the (dict_get (results ex_ranked) (fst p)), k))
                  (filter (\<lambda>p. dict_get (snd p) ''overall'' = Some k
                                \<and> dict_get (results ex_ranked) (fst p) \<noteq> None)
                     (evaluations ex_ranked))))"
    by blast
  have f: "filter (\<lambda>x. snd x = Float 1) (get_top_results ex_world ex_ranked ''overall'' 3)
        = [(ex_result ''a'' ''first'', Float 1), (ex_result ''c'' ''third'', Float 1)]"
    by (simp add: ex_ranked_top)
  note b1 = b [THEN conjunct1]
  note b2 = b [THEN conjunct2, THEN spec, of "Float 1"]
  show ?thesis
    by (intro conjI) (simp, rule ex_ranked_top, rule a, rule b1, rule b2, rule f)
qed


text \<open>
  Claim C6 as stated fails for a negative bound: \<open>scored_results[:-1]\<close> drops the last
  item only, so three evaluated results give two items for \<open>n = -1\<close>.
\<close>

theorem get_top_results_negative_counterexample:
  "\<not> int (length (get_top_results ex_world ex_ranked ''overall'' (- 1))) \<le> - 1"
  by (simp add: get_top_results_def ex_ranked_def ex_app_def slice_to_def slice_index_def
      sort_desc_def dict_get_def)

section \<open>Cluster-based synthesis\<close>

lemma clusters_eq:
  "clusters xs =
     [ take (length xs div 3) xs,
       take (2 * length xs div 3 - length xs div 3) (drop (length xs div 3) xs),
       drop (2 * length xs div 3) xs ]"
proof -
  let ?n = "length xs"
  have "int ?n div 3 = int (?n div 3)"
    by (simp add: zdiv_int)
  then have a: "slice_index xs (int ?n div 3) = ?n div 3"
    by (simp add: slice_index_def)
  have "2 * int ?n div 3 = int (2 * ?n div 3)"
    by (simp add: zdiv_int)
  then have b: "slice_index xs (2 * int ?n div 3) = 2 * ?n div 3"
    by (simp add: slice_index_def)
  show ?thesis
    unfolding clusters_def slice_to_def slice_from_def slice_def a b by simp
qed

lemma concat_clusters: "concat (clusters xs) = xs"
proof -
  let ?a = "length xs div 3" and ?b = "2 * length xs div 3"
  have le: "?a \<le> ?b" by simp
  have "take (?b - ?a) (drop ?a xs) @ drop ?b xs = drop ?a xs"
  proof -
    have "drop ?b xs = drop (?b - ?a) (drop ?a xs)"
      using le by simp
    then show ?thesis by (metis append_take_drop_id)
  qed
  then show ?thesis by (simp add: clusters_eq)
qed

lemma cluster_loop_3:
  "cluster_loop m (Suc 0) [c1, c2, c3] [] =
     (if c1 = [] then [] else [(''synthesized_idea_1'', cluster_idea m (Suc 0) c1)])
     @ (if c2 = [] then [] else [(''synthesized_idea_2'', cluster_idea m (Suc (Suc 0)) c2)])
     @ (if c3 = [] then [] else [(''synthesized_idea_3'', cluster_idea m (Suc (Suc (Suc 0))) c3)])"
  by (simp add: string_of_nat_1 string_of_nat_2 string_of_nat_3)

lemma cluster_idea_sources:
  "idea_source_combinations (cluster_idea m i c) = map (\<lambda>p. res_combination_id (fst p)) c"
  by (simp add: cluster_idea_def Let_def)

lemma synthesized_cluster_based:
  "tr \<noteq> [] \<Longrightarrow> clusters tr = [c1, c2, c3] \<Longrightarrow>
   snd (synthesize_ideas w app (Some tr) ''cluster_based'') =
     (if c1 = [] then [] else [(''synthesized_idea_1'', cluster_idea ''cluster_based'' (Suc 0) c1)])
     @ (if c2 = [] then [] else [(''synthesized_idea_2'', cluster_idea ''cluster_based'' (Suc (Suc 0)) c2)])
     @ (if c3 = [] then [] else [(''synthesized_idea_3'', cluster_idea ''cluster_based'' (Suc (Suc (Suc 0))) c3)])"
  by (simp add: synthesize_ideas_def Let_def cluster_loop_3 del: cluster_loop.simps)

lemma idea_keys:
  "''synthesized_idea_'' @ string_of_nat (0 + 1) = ''synthesized_idea_1''"
  "''synthesized_idea_'' @ string_of_nat (Suc 0 + 1) = ''synthesized_idea_2''"
  "''synthesized_idea_'' @ string_of_nat (Suc (Suc 0) + 1) = ''synthesized_idea_3''"
  by (simp_all add: string_of_nat_1 string_of_nat_2 string_of_nat_3)


text \<open>
  Claim C3. For a non-empty list of (result, score) pairs, \<open>cluster_based\<close> synthesis
  splits the list into exactly three contiguous groups (the first third, the second
  third, the rest, which together are the list), skips the empty groups and produces
  exactly one idea for each group that is not empty, stored under the number of the
  group and naming the combinations of the group as its sources. Nine pairs give the
  groups 3/3/3 and three ideas; two pairs give at most two ideas.
\<close>

theorem cluster_based_synthesis:
  assumes "top_results \<noteq> []"
  shows "length (clusters top_results) = 3
    \<and> concat (clusters top_results) = top_results
    \<and> clusters top_results ! 0 = take (length top_results div 3) top_results
    \<and> clusters top_results ! 2 = drop (2 * length top_results div 3) top_results
    \<and> length (snd (synthesize_ideas w app (Some top_results) ''cluster_based''))
        = length (filter (\<lambda>c. c \<noteq> []) (clusters top_results))
    \<and> (\<forall>i < 3. clusters top_results ! i \<noteq> [] \<longrightarrow>
          (\<exists>x. dict_get (snd (synthesize_ideas w app (Some top_results) ''cluster_based''))
                   (''synthesized_idea_'' @ string_of_nat (i + 1)) = Some x
               \<and> idea_source_combinations x
                   = map (\<lambda>p. res_combination_id (fst p)) (clusters top_results ! i)))
    \<and> (\<forall>i < 3. clusters top_results ! i = [] \<longrightarrow>
          dict_get (snd (synthesize_ideas w app (Some top_results) ''cluster_based''))
            (''synthesized_idea_'' @ string_of_nat (i + 1)) = None)
    \<and> (length top_results = 9 \<longrightarrow>
          map length (clusters top_results) = [3, 3, 3]
          \<and> length (snd (synthesize_ideas w app (Some top_results) ''cluster_based'')) = 3)
    \<and> (length top_results = 2 \<longrightarrow>
          length (snd (synthesize_ideas w app (Some top_results) ''cluster_based'')) \<le> 2)"
proof -
  let ?syn = "snd (synthesize_ideas w app (Some top_results) ''cluster_based'')"
  obtain c1 c2 c3 where cs: "clusters top_results = [c1, c2, c3]"
    by (simp add: clusters_eq)
  note syn = synthesized_cluster_based [OF assms cs, of w app]
  have i3: "\<And>P. (\<forall>i<3. P i) = (P 0 \<and> P (Suc 0) \<and> P (Suc (Suc 0)))"
    by (auto simp: numeral_3_eq_3 less_Suc_eq)
  have p1: "length (clusters top_results) = 3" by (simp add: cs)
  have p2: "concat (clusters top_results) = top_results" by (rule concat_clusters)
  have p3: "clusters top_results ! 0 = take (length top_results div 3) top_results"
    by (simp add: clusters_eq)
  have p4: "clusters top_results ! 2 = drop (2 * length top_results div 3) top_results"
    by (simp add: clusters_eq)
  have p5: "length ?syn = length (filter (\<lambda>c. c \<noteq> []) (clusters top_results))"
    by (simp add: syn cs)
  have p6: "\<forall>i < 3. clusters top_results ! i \<noteq> [] \<longrightarrow>
          (\<exists>x. dict_get ?syn (''synthesized_idea_'' @ string_of_nat (i + 1)) = Some x
               \<and> idea_source_combinations x
                   = map (\<lambda>p. res_combination_id (fst p)) (clusters top_results ! i))"
    unfolding i3 idea_keys
    by (simp add: syn cs dict_get_def cluster_idea_sources)
  have p7: "\<forall>i < 3. clusters top_results ! i = [] \<longrightarrow>
          dict_get ?syn (''synthesized_idea_'' @ string_of_nat (i + 1)) = None"
    unfolding i3 idea_keys
    by (simp add: syn cs dict_get_def)
  have p8: "length top_results = 9 \<longrightarrow>
          map length (clusters top_results) = [3, 3, 3] \<and> length ?syn = 3"
  proof
    assume n: "length top_results = 9"
    have l: "map length (clusters top_results) = [3, 3, 3]"
      by (simp add: clusters_eq n)
    then have "c1 \<noteq> [] \<and> c2 \<noteq> [] \<and> c3 \<noteq> []"
      by (auto simp: cs)
    then show "map length (clusters top_results) = [3, 3, 3] \<and> length ?syn = 3"
      using l by (simp add: syn)
  qed
  have p9: "length top_results = 2 \<longrightarrow> length ?syn \<le> 2"
  proof
    assume n: "length top_results = 2"
    have "c1 = []" using cs by (simp add: clusters_eq n)
    then show "length ?syn \<le> 2" by (simp add: syn)
  qed
  from p1 p2 p3 p4 p5 p6 p7 p8 p9 show ?thesis by blast
qed


text \<open>The claim on nine results: three groups of three, three ideas.\<close>

theorem cluster_based_synthesis_witness:
  "ex_nine \<noteq> [] \<and> length ex_nine = 9
   \<and> map length (clusters ex_nine) = [3, 3, 3]
   \<and> length (snd (synthesize_ideas ex_world ex_app (Some ex_nine) ''cluster_based'')) = 3
   \<and> clusters ex_nine ! 0 \<noteq> []
   \<and> (\<exists>x. dict_get (snd (synthesize_ideas ex_world ex_app (Some ex_nine) ''cluster_based''))
              ''synthesized_idea_1'' = Some x
           \<and> idea_source_combinations x = [''c1'', ''c2'', ''c3''])"
proof -
  have ne: "ex_nine \<noteq> []" by (simp add: ex_nine_def)
  have len: "length ex_nine = 9" by (simp add: ex_nine_def)
  have c0: "clusters ex_nine ! 0 = take 3 ex_nine"
    by (simp add: clusters_eq len)
  have src: "map (\<lambda>p. res_combination_id (fst p)) (clusters ex_nine ! 0) = [''c1'', ''c2'', ''c3'']"
    by (simp add: c0) (simp add: ex_nine_def ex_result_def)
  have c0ne: "clusters ex_nine ! 0 \<noteq> []"
    by (simp add: c0) (simp add: ex_nine_def)
  note t = cluster_based_synthesis [OF ne, of ex_world ex_app]
  from t len have a: "map length (clusters ex_nine) = [3, 3, 3]
      \<and> length (snd (synthesize_ideas ex_world ex_app (Some ex_nine) ''cluster_based'')) = 3"
    by blast
  from t have "\<forall>i < 3. clusters ex_nine ! i \<noteq> [] \<longrightarrow>
          (\<exists>x. dict_get (snd (synthesize_ideas ex_world ex_app (Some ex_nine) ''cluster_based''))
                   (''synthesized_idea_'' @ string_of_nat (i + 1)) = Some x
               \<and> idea_source_combinations x
                   = map (\<lambda>p. res_combination_id (fst p)) (clusters ex_nine ! i))"
    by blast
  then have "clusters ex_nine ! 0 \<noteq> [] \<longrightarrow>
          (\<exists>x. dict_get (snd (synthesize_ideas ex_world ex_app (Some ex_nine) ''cluster_based''))
                   (''synthesized_idea_'' @ string_of_nat (0 + 1)) = Some x
               \<and> idea_source_combinations x
                   = map (\<lambda>p. res_combination_id (fst p)) (clusters ex_nine ! 0))"
    by (metis zero_less_numeral)
  with c0ne have b: "\<exists>x. dict_get (snd (synthesize_ideas ex_world ex_app (Some ex_nine) ''cluster_based''))
              ''synthesized_idea_1'' = Some x
           \<and> idea_source_combinations x = [''c1'', ''c2'', ''c3'']"
    by (simp add: src string_of_nat_1)
  from ne len a c0ne b show ?thesis by blast
qed



section \<open>Synthesis merges into the idea store\<close>

lemma synthesize_keys:
  "set (map fst (snd (synthesize_ideas w app tr m)))
     \<subseteq> {''synthesized_idea_1'', ''synthesized_idea_2'', ''synthesized_idea_3'',
         ''synthesized_idea_crossover''}
   \<and> distinct (map fst (snd (synthesize_ideas w app tr m)))"
proof -
  let ?top = "case tr of None \<Rightarrow> get_top_results w app ''overall'' 10 | Some t \<Rightarrow> t"
  show ?thesis
  proof (cases "?top = []")
    case True
    then show ?thesis by (simp add: synthesize_ideas_def)
  next
    case False
    obtain c1 c2 c3 where cs: "clusters ?top = [c1, c2, c3]"
      by (simp add: clusters_eq)
    show ?thesis
      using False cs
      by (simp add: synthesize_ideas_def Let_def cluster_loop_3 del: cluster_loop.simps)
  qed
qed


text \<open>
  Claim C4, as amended. Every invocation of \<open>synthesize_ideas\<close> merges its output into
  the stored idea collection by identifier (\<open>dict.update\<close>) and never replaces the
  collection: the ideas stored under identifiers that this invocation does not produce
  stay as they were, an identifier that it produces holds the idea of this invocation
  afterwards (an idea stored under it before is overwritten), the identifiers stored
  afterwards are those stored before together with those produced, and the identifiers
  an invocation produces are among the four fixed ones. Nothing is deduplicated.
\<close>

theorem synthesize_ideas_merges:
  "synthesized_ideas (fst (synthesize_ideas w app tr m))
     = dict_update (synthesized_ideas app) (snd (synthesize_ideas w app tr m))
   \<and> (\<forall>k. k \<notin> set (dict_keys (snd (synthesize_ideas w app tr m))) \<longrightarrow>
         dict_get (synthesized_ideas (fst (synthesize_ideas w app tr m))) k
           = dict_get (synthesized_ideas app) k)
   \<and> (\<forall>k \<in> set (dict_keys (snd (synthesize_ideas w app tr m))).
         dict_get (synthesized_ideas (fst (synthesize_ideas w app tr m))) k
           = dict_get (snd (synthesize_ideas w app tr m)) k)
   \<and> set (dict_keys (synthesized_ideas (fst (synthesize_ideas w app tr m))))
        = set (dict_keys (synthesized_ideas app)) \<union> set (dict_keys (snd (synthesize_ideas w app tr m)))
   \<and> set (dict_keys (snd (synthesize_ideas w app tr m)))
        \<subseteq> {''synthesized_idea_1'', ''synthesized_idea_2'', ''synthesized_idea_3'',
            ''synthesized_idea_crossover''}"
proof -
  let ?syn = "snd (synthesize_ideas w app tr m)"
  let ?app' = "fst (synthesize_ideas w app tr m)"
  have upd: "synthesized_ideas ?app' = dict_update (synthesized_ideas app) ?syn"
    by (simp add: synthesize_ideas_def Let_def dict_update_def)
  have d: "distinct (map fst ?syn)" using synthesize_keys by blast
  have m: "map_of (synthesized_ideas ?app') = map_of (synthesized_ideas app) ++ map_of ?syn"
    by (simp add: upd map_of_dict_update [OF d])
  have a: "\<forall>k. k \<notin> set (dict_keys ?syn) \<longrightarrow>
         dict_get (synthesized_ideas ?app') k = dict_get (synthesized_ideas app) k"
    by (auto simp: dict_get_def dict_keys_def m map_add_def map_of_eq_None_iff [THEN iffD2]
        split: option.splits)
  have b: "\<forall>k \<in> set (dict_keys ?syn).
         dict_get (synthesized_ideas ?app') k = dict_get ?syn k"
  proof
    fix k assume "k \<in> set (dict_keys ?syn)"
    then obtain v where "map_of ?syn k = Some v"
      by (metis dict_keys_def map_of_eq_None_iff not_Some_eq set_map)
    then show "dict_get (synthesized_ideas ?app') k = dict_get ?syn k"
      by (simp add: dict_get_def m map_add_def)
  qed
  have c: "set (dict_keys (synthesized_ideas ?app'))
             = set (dict_keys (synthesized_ideas app)) \<union> set (dict_keys ?syn)"
    using keys_dict_update [of "synthesized_ideas app" ?syn] by (simp add: dict_keys_def upd)
  have e: "set (dict_keys ?syn)
        \<subseteq> {''synthesized_idea_1'', ''synthesized_idea_2'', ''synthesized_idea_3'',
            ''synthesized_idea_crossover''}"
    using synthesize_keys [of w app tr m] by (simp add: dict_keys_def)
  from upd a b c e show ?thesis by blast
qed




lemma ex_first_ideas:
  "map (\<lambda>p. (fst p, idea_text (snd p))) (synthesized_ideas ex_after_first)
     = [(''synthesized_idea_2'', ''second''), (''synthesized_idea_3'', ''third'')]"
  by (simp add: ex_after_first_def ex_two_def ex_app_def ex_result_def synthesize_ideas_def Let_def
      clusters_eq dict_update_def cluster_idea_def
      string_of_nat_1 string_of_nat_2 string_of_nat_3)

lemma ex_second_ideas:
  "map (\<lambda>p. (fst p, idea_text (snd p))) (synthesized_ideas ex_after_second)
     = [(''synthesized_idea_2'', ''second''), (''synthesized_idea_3'', ''second'')]"
  by (simp add: ex_after_second_def ex_after_first_def ex_one_def ex_two_def ex_app_def ex_result_def
      synthesize_ideas_def Let_def clusters_eq dict_update_def cluster_idea_def
      string_of_nat_1 string_of_nat_2 string_of_nat_3)

lemma map_of_texts:
  "map_option idea_text (dict_get d k) = map_of (map (\<lambda>p. (fst p, idea_text (snd p))) d) k"
  by (induction d) (auto simp: dict_get_def)

lemma ex_second_keys:
  "dict_keys (snd (synthesize_ideas ex_world ex_after_first (Some ex_one) ''cluster_based''))
     = [''synthesized_idea_3'']"
  by (simp add: ex_one_def synthesize_ideas_def Let_def dict_keys_def
      clusters_eq string_of_nat_1 string_of_nat_2 string_of_nat_3)


text \<open>
  The claim on a second run over an overlapping input: the second group's identifier is
  not produced and keeps the idea it had, the third is produced and holds the new idea.
\<close>

theorem synthesize_ideas_merges_witness:
  "''synthesized_idea_2''
      \<notin> set (dict_keys (snd (synthesize_ideas ex_world ex_after_first (Some ex_one) ''cluster_based'')))
   \<and> map_option idea_text (dict_get (synthesized_ideas ex_after_first) ''synthesized_idea_2'')
       = Some ''second''
   \<and> dict_get (synthesized_ideas ex_after_second) ''synthesized_idea_2''
       = dict_get (synthesized_ideas ex_after_first) ''synthesized_idea_2''
   \<and> ''synthesized_idea_3''
      \<in> set (dict_keys (snd (synthesize_ideas ex_world ex_after_first (Some ex_one) ''cluster_based'')))
   \<and> dict_get (synthesized_ideas ex_after_second) ''synthesized_idea_3''
       = dict_get (snd (synthesize_ideas ex_world ex_after_first (Some ex_one) ''cluster_based''))
           ''synthesized_idea_3''"
proof -
  note t = synthesize_ideas_merges [of ex_world ex_after_first "Some ex_one" "''cluster_based''"]
  from t have a: "\<forall>k. k \<notin> set (dict_keys (snd (synthesize_ideas ex_world ex_after_first (Some ex_one) ''cluster_based''))) \<longrightarrow>
         dict_get (synthesized_ideas ex_after_second) k = dict_get (synthesized_ideas ex_after_first) k"
    unfolding ex_after_second_def by (elim conjE)
  from t have b: "\<forall>k \<in> set (dict_keys (snd (synthesize_ideas ex_world ex_after_first (Some ex_one) ''cluster_based''))).
         dict_get (synthesized_ideas ex_after_second) k
           = dict_get (snd (synthesize_ideas ex_world ex_after_first (Some ex_one) ''cluster_based'')) k"
    unfolding ex_after_second_def by (elim conjE)
  have s: "map_option idea_text (dict_get (synthesized_ideas ex_after_first) ''synthesized_idea_2'')
       = Some ''second''"
    by (simp add: map_of_texts ex_first_ideas)
  from a b s show ?thesis by (simp add: ex_second_keys)
qed


text \<open>
  Claim C4 as stated fails: after synthesis over two results, a run over the first of
  them stores its idea under the identifier \<open>synthesized_idea_3\<close>, which held the idea
  of the other result, and that idea is gone; no identifier is new.
\<close>

theorem synthesize_ideas_overwrites_counterexample:
  "dict_get (synthesized_ideas ex_after_first) ''synthesized_idea_3'' \<noteq> None
   \<and> \<not> (dict_get (synthesized_ideas ex_after_second) ''synthesized_idea_3''
          = dict_get (synthesized_ideas ex_after_first) ''synthesized_idea_3'')"
proof -
  have a: "map_option idea_text (dict_get (synthesized_ideas ex_after_first) ''synthesized_idea_3'')
             = Some ''third''"
    by (simp add: map_of_texts ex_first_ideas)
  have b: "map_option idea_text (dict_get (synthesized_ideas ex_after_second) ''synthesized_idea_3'')
             = Some ''second''"
    by (simp add: map_of_texts ex_second_ideas)
  from a b show ?thesis by auto
qed

end
